theory Spec2Isabelle
  imports
    Main
    "HOL-Library.AList"
    "HOL-Library.Char_ord"
    "HOL-Library.List_Lexorder"
    "HOL-Library.Product_Lexorder"
    "HOL-Library.Word"
begin

section \<open>andrewzc-api: a shallow embedding of the Express server\<close>

text \<open>
  Each of the three source files is an Express server of its own: \<^verbatim>\<open>src/server.js\<close>
  (one route, \<^verbatim>\<open>GET /pages/:id\<close>), \<^verbatim>\<open>src/unnamed/part_001\<close> (the four
  read-only content routes) and \<^verbatim>\<open>src/unnamed/part_000\<close> (the content routes, the
  admin session routes and the entity routes). Every handler is modelled as a function
  from the request, the database state and the outcome of the calls the handler cannot
  control (store failures, the clock, the random source) to the response and the new
  database state. MongoDB, HMAC-SHA256 and Argon2 are libraries the repository calls;
  the two cryptographic ones are parameters of the model, the store is a list of
  documents per collection.
\<close>

subsection \<open>JavaScript strings\<close>

text \<open>
  Strings are lists of 8-bit characters. \<^verbatim>\<open>toLowerCase\<close> and \<^verbatim>\<open>toUpperCase\<close>
  are modelled on the ASCII letters and leave every other character as it is.
\<close>

definition toLowerChar :: "char \<Rightarrow> char" where
  "toLowerChar c =
     (if CHR ''A'' \<le> c \<and> c \<le> CHR ''Z'' then char_of (of_char c + (32::nat)) else c)"

definition toUpperChar :: "char \<Rightarrow> char" where
  "toUpperChar c =
     (if CHR ''a'' \<le> c \<and> c \<le> CHR ''z'' then char_of (of_char c - (32::nat)) else c)"

definition toLowerCase :: "string \<Rightarrow> string" where
  "toLowerCase s = map toLowerChar s"

definition toUpperCase :: "string \<Rightarrow> string" where
  "toUpperCase s = map toUpperChar s"

text \<open>\<^verbatim>\<open>s.split(sep)\<close> for a one-character separator: never empty, \<^verbatim>\<open>"".split("-")\<close>
  is \<^verbatim>\<open>[""]\<close>.\<close>

fun js_split :: "char \<Rightarrow> string \<Rightarrow> string list" where
  "js_split sep [] = [[]]"
| "js_split sep (c # cs) =
     (if c = sep then [] # js_split sep cs
      else (case js_split sep cs of
              [] \<Rightarrow> [[c]]
            | p # ps \<Rightarrow> (c # p) # ps))"

text \<open>\<^verbatim>\<open>xs.join(sep)\<close>.\<close>

fun join :: "string \<Rightarrow> string list \<Rightarrow> string" where
  "join sep [] = []"
| "join sep [x] = x"
| "join sep (x # y # ys) = x @ sep @ join sep (y # ys)"

text \<open>\<^verbatim>\<open>s.includes(t)\<close>.\<close>

fun includes_str :: "string \<Rightarrow> string \<Rightarrow> bool" where
  "includes_str [] t = (t = [])"
| "includes_str (c # cs) t = (take (length t) (c # cs) = t \<or> includes_str cs t)"

subsection \<open>City keys (part\_000 lines 109--130, part\_001 lines 58--79)\<close>

text \<open>
  \<^verbatim>\<open>
  function toTitleCaseWord(w) {
    if (!w) return w;
    const lower = w.toLowerCase();
    return lower.charAt(0).toUpperCase() + lower.slice(1);
  }
  \<close>
\<close>

definition toTitleCaseWord :: "string \<Rightarrow> string" where
  "toTitleCaseWord w =
     (if w = [] then w
      else (let lower = toLowerCase w
            in toUpperCase (take 1 lower) @ drop 1 lower))"

text \<open>
  \<^verbatim>\<open>
  function cityKeyToDisplayName(key) {
    const parts = String(key || "").split("-").filter(Boolean);
    if (parts.length === 0) return "";
    const last = parts[parts.length - 1];
    const rest = parts.slice(0, -1);
    if (last.length === 2 && rest.length > 0) {
      const left = rest.map(toTitleCaseWord).join(" ");
      return `${left}, ${last.toUpperCase()}`;
    }
    return parts.map(toTitleCaseWord).join(" ");
  }
  \<close>
  The key is a string (the route parameter), on which \<^verbatim>\<open>String(key || "")\<close> is the
  identity. \<^verbatim>\<open>parts[parts.length - 1]\<close> is read only when \<^verbatim>\<open>parts\<close> is not empty.
\<close>

definition cityKeyToDisplayName :: "string \<Rightarrow> string" where
  "cityKeyToDisplayName key =
     (let parts = filter (\<lambda>p. p \<noteq> []) (js_split CHR ''-'' key)
      in if length parts = 0 then []
         else (let last_part = parts ! (length parts - 1);
                   rest = take (length parts - 1) parts
               in if length last_part = 2 \<and> length rest > 0
                  then join '' '' (map toTitleCaseWord rest) @ '', '' @ toUpperCase last_part
                  else join '' '' (map toTitleCaseWord parts)))"

text \<open>
  The description of the function in words: the tokens of a key are its non-empty
  pieces between dashes; a word is title-cased by putting its first letter in upper case
  and the others in lower case.
\<close>

definition tokens :: "string \<Rightarrow> string list" where
  "tokens key = filter (\<lambda>p. p \<noteq> []) (js_split CHR ''-'' key)"

fun title_cased :: "string \<Rightarrow> string" where
  "title_cased [] = []"
| "title_cased (c # cs) = toUpperChar c # map toLowerChar cs"

definition cityKeyToDisplayName_spec :: "string \<Rightarrow> string" where
  "cityKeyToDisplayName_spec key =
     (if 2 \<le> length (tokens key) \<and> length (last (tokens key)) = 2
      then join '' '' (map title_cased (butlast (tokens key))) @ '', ''
             @ map toUpperChar (last (tokens key))
      else join '' '' (map title_cased (tokens key)))"

subsection \<open>JSON values and documents\<close>

text \<open>
  The values a document field or a request field holds: the JSON scalars, arrays of
  strings (as in \<^verbatim>\<open>countries: ["BE", "NL"]\<close>), and the two BSON types the code
  creates, \<^verbatim>\<open>ObjectId\<close> and \<^verbatim>\<open>Date\<close>. A document is the list of its fields in
  order; \<^verbatim>\<open>doc.f\<close> is \<open>map_of doc f\<close> and \<open>None\<close> stands for \<^verbatim>\<open>undefined\<close>.
\<close>

datatype jsval =
    JNull
  | JBool bool
  | JNum int
  | JStr string
  | JList "string list"
  | JId nat
  | JDate nat

type_synonym doc = "(string \<times> jsval) list"

text \<open>JavaScript truthiness, as \<^verbatim>\<open>!x\<close> and \<^verbatim>\<open>x || y\<close> read it.\<close>

fun truthy :: "jsval option \<Rightarrow> bool" where
  "truthy None = False"
| "truthy (Some JNull) = False"
| "truthy (Some (JBool b)) = b"
| "truthy (Some (JNum n)) = (n \<noteq> 0)"
| "truthy (Some (JStr s)) = (s \<noteq> [])"
| "truthy (Some (JList xs)) = True"
| "truthy (Some (JId n)) = True"
| "truthy (Some (JDate t)) = True"

text \<open>\<^verbatim>\<open>x || null\<close>.\<close>

definition or_null :: "jsval option \<Rightarrow> jsval" where
  "or_null x = (case x of None \<Rightarrow> JNull | Some v \<Rightarrow> if truthy (Some v) then v else JNull)"

text \<open>\<^verbatim>\<open>x || y\<close>.\<close>

definition js_or :: "jsval option \<Rightarrow> jsval option \<Rightarrow> jsval option" where
  "js_or x y = (if truthy x then x else y)"

text \<open>
  \<^verbatim>\<open>
  function stripMongoId(doc) {
    if (!doc) return doc;
    const { _id, ...rest } = doc;
    return rest;
  }
  \<close>
  It is only ever applied to documents, which are truthy.
\<close>

definition stripMongoId :: "doc \<Rightarrow> doc" where
  "stripMongoId d = AList.delete ''_id'' d"

subsection \<open>Errors and responses\<close>

datatype js_error = JsError (err_name: string) (err_message: string) (err_code: "int option")

text \<open>\<^verbatim>\<open>String(err)\<close> of an \<^verbatim>\<open>Error\<close> object.\<close>

definition String_of_error :: "js_error \<Rightarrow> string" where
  "String_of_error e =
     (if err_message e = [] then err_name e
      else if err_name e = [] then err_message e
      else err_name e @ '': '' @ err_message e)"

text \<open>
  \<^verbatim>\<open>
  function cleanError(err) {
    if (!err) return err;
    if (typeof err === "string") return err;
    return err.message || String(err);
  }
  \<close>
  What the handlers catch are \<^verbatim>\<open>Error\<close> objects.
\<close>

definition cleanError :: "js_error \<Rightarrow> string" where
  "cleanError e = (if err_message e \<noteq> [] then err_message e else String_of_error e)"

record cookie_options =
  httpOnly :: bool
  secure :: bool
  sameSite :: string
  path :: string
  maxAge :: "nat option"

datatype cookie_effect =
    NoCookie
  | SetCookie string string cookie_options
  | ClearCookie string string

datatype json_body =
    ErrorBody string string
  | ErrorObjBody string js_error
  | OkBody
  | AuthenticatedBody bool
  | DocBody doc
  | PageBody doc "doc list"
  | PagesBody "doc list"
  | CountryBody "doc option" "doc list"
  | CityBody "doc option" "doc list"

record response =
  status :: nat
  body :: json_body
  cookie :: cookie_effect

text \<open>\<^verbatim>\<open>res.status(n).json(b)\<close>; \<^verbatim>\<open>res.json(b)\<close> is \<open>json 200 b\<close>.\<close>

definition json :: "nat \<Rightarrow> json_body \<Rightarrow> response" where
  "json n b = \<lparr>status = n, body = b, cookie = NoCookie\<rparr>"

subsection \<open>The store\<close>

text \<open>
  The collections. An account and a session carry the fields the code reads and writes;
  entities and pages are free-form documents.
\<close>

record account =
  acc_id :: nat
  username :: string
  passwordHash :: string
  disabled :: bool

record session =
  sess_id :: nat
  accountId :: nat
  sessionTokenHash :: string
  createdAt :: nat
  lastSeenAt :: nat
  revokedAt :: "nat option"
  label :: jsval
  ip :: jsval
  userAgent :: jsval

record db =
  accounts :: "account list"
  sessions :: "session list"
  entities :: "doc list"
  pages :: "doc list"

text \<open>
  Every awaited call of a handler can reject. Which calls of one request do is an input
  of the model: \<open>f c = Some e\<close> says that the call \<open>c\<close> throws \<open>e\<close>.
\<close>

datatype store_call =
    ConnectToMongo
  | PagesFindOne
  | PagesFind
  | EntitiesFind
  | EntitiesFindOne
  | EntitiesInsertOne
  | EntitiesFindOneAndUpdate
  | AccountsFindOne
  | SessionsFindOne
  | SessionsInsertOne
  | SessionsTouch
  | SessionsRevoke

type_synonym faults = "store_call \<Rightarrow> js_error option"

definition store :: "faults \<Rightarrow> store_call \<Rightarrow> 'a \<Rightarrow> js_error + 'a" where
  "store f c v = (case f c of Some e \<Rightarrow> Inl e | None \<Rightarrow> Inr v)"

definition connectToMongo :: "faults \<Rightarrow> js_error + unit" where
  "connectToMongo f = store f ConnectToMongo ()"

text \<open>\<^verbatim>\<open>await\<close> inside a \<^verbatim>\<open>try\<close> block, and the \<^verbatim>\<open>catch\<close> that ends it.\<close>

definition await :: "js_error + 'a \<Rightarrow> ('a \<Rightarrow> js_error + 'b) \<Rightarrow> js_error + 'b" where
  "await r k = (case r of Inl e \<Rightarrow> Inl e | Inr v \<Rightarrow> k v)"

definition try_catch :: "js_error + 'a \<Rightarrow> (js_error \<Rightarrow> 'a) \<Rightarrow> 'a" where
  "try_catch r h = (case r of Inl e \<Rightarrow> h e | Inr v \<Rightarrow> v)"

text \<open>
  A query \<^verbatim>\<open>{field: s}\<close> with a string \<open>s\<close> selects the documents whose field is
  \<open>s\<close> or an array that holds \<open>s\<close>.
\<close>

fun matches_eq :: "jsval option \<Rightarrow> string \<Rightarrow> bool" where
  "matches_eq (Some (JStr s)) v = (s = v)"
| "matches_eq (Some (JList xs)) v = (v \<in> set xs)"
| "matches_eq _ v = False"

text \<open>
  The order of \<^verbatim>\<open>.sort({name: 1, key: 1})\<close>: BSON compares values of different
  types by type (null and missing fields first, then numbers, strings, arrays, object
  ids, booleans, dates), strings byte by byte, and an array by its smallest element (an
  empty array before null). MongoDB leaves the order of documents that compare equal
  open; the model keeps them in the order of the collection.
\<close>

fun bson_key :: "jsval option \<Rightarrow> nat \<times> int \<times> string" where
  "bson_key None = (1, 0, [])"
| "bson_key (Some JNull) = (1, 0, [])"
| "bson_key (Some (JNum n)) = (2, n, [])"
| "bson_key (Some (JStr s)) = (3, 0, s)"
| "bson_key (Some (JList [])) = (0, 0, [])"
| "bson_key (Some (JList (x # xs))) = (3, 0, fold min xs x)"
| "bson_key (Some (JId n)) = (7, int n, [])"
| "bson_key (Some (JBool b)) = (8, if b then 1 else 0, [])"
| "bson_key (Some (JDate t)) = (9, int t, [])"

definition by_name :: "doc \<Rightarrow> nat \<times> int \<times> string" where
  "by_name d = bson_key (map_of d ''name'')"

definition by_name_key :: "doc \<Rightarrow> (nat \<times> int \<times> string) \<times> (nat \<times> int \<times> string)" where
  "by_name_key d = (bson_key (map_of d ''name''), bson_key (map_of d ''key''))"

text \<open>\<^verbatim>\<open>xs.findIndex(p)\<close>, with \<open>None\<close> for \<^verbatim>\<open>-1\<close>.\<close>

fun findIndex :: "('a \<Rightarrow> bool) \<Rightarrow> 'a list \<Rightarrow> nat option" where
  "findIndex p [] = None"
| "findIndex p (x # xs) =
     (if p x then Some 0 else (case findIndex p xs of None \<Rightarrow> None | Some i \<Rightarrow> Some (Suc i)))"

text \<open>\<^verbatim>\<open>xs.filter((_, i) => i !== k)\<close>.\<close>

definition without_index :: "nat \<Rightarrow> 'a list \<Rightarrow> 'a list" where
  "without_index k xs = map fst (filter (\<lambda>(x, i). i \<noteq> k) (zip xs [0..<length xs]))"

subsection \<open>The content routes (part\_000 lines 286--319 and 414--518, the same text in
  part\_001)\<close>

text \<open>
  \<^verbatim>\<open>
  app.get("/pages/:id", async (req, res) => {
    const id = req.params.id;
    try {
      const db = await connectToMongo();
      const pageDoc = await pages.findOne({ key: id });
      if (!pageDoc) {
        return res.status(404).json({
          error: "page_not_found", message: `No page found for key='${id}'` });
      }
      const entityDocs = await entities
        .find({ list: id }).sort({ name: 1, key: 1 }).toArray();
      return res.json({
        "--info--": stripMongoId(pageDoc), entities: entityDocs.map(stripMongoId) });
    } catch (err) {
      return res.status(500).json({ error: "internal_error", message: err });
    }
  });
  \<close>
\<close>

definition get_pages_id :: "faults \<Rightarrow> db \<Rightarrow> string \<Rightarrow> response" where
  "get_pages_id f d ident =
     try_catch
       (await (connectToMongo f) (\<lambda>_.
        await (store f PagesFindOne
                 (find (\<lambda>p. matches_eq (map_of p ''key'') ident) (pages d))) (\<lambda>pageDoc.
        case pageDoc of
          None \<Rightarrow>
            Inr (json 404 (ErrorBody ''page_not_found''
                   (''No page found for key='' @ [CHR 0x27] @ ident @ [CHR 0x27])))
        | Some pageDoc \<Rightarrow>
            await (store f EntitiesFind
                     (sort_key by_name_key
                        (filter (\<lambda>e. matches_eq (map_of e ''list'') ident) (entities d))))
              (\<lambda>entityDocs.
                 Inr (json 200
                        (PageBody (stripMongoId pageDoc) (map stripMongoId entityDocs)))))))
       (\<lambda>err. json 500 (ErrorObjBody ''internal_error'' err))"

text \<open>
  The same route in \<^verbatim>\<open>src/server.js\<close> (lines 56--89) differs in one call:
  \<^verbatim>\<open>.find({ list: id }).sort({ name: 1 }).toArray()\<close>.
\<close>

definition server_js_get_pages_id :: "faults \<Rightarrow> db \<Rightarrow> string \<Rightarrow> response" where
  "server_js_get_pages_id f d ident =
     try_catch
       (await (connectToMongo f) (\<lambda>_.
        await (store f PagesFindOne
                 (find (\<lambda>p. matches_eq (map_of p ''key'') ident) (pages d))) (\<lambda>pageDoc.
        case pageDoc of
          None \<Rightarrow>
            Inr (json 404 (ErrorBody ''page_not_found''
                   (''No page found for key='' @ [CHR 0x27] @ ident @ [CHR 0x27])))
        | Some pageDoc \<Rightarrow>
            await (store f EntitiesFind
                     (sort_key by_name
                        (filter (\<lambda>e. matches_eq (map_of e ''list'') ident) (entities d))))
              (\<lambda>entityDocs.
                 Inr (json 200
                        (PageBody (stripMongoId pageDoc) (map stripMongoId entityDocs)))))))
       (\<lambda>err. json 500 (ErrorObjBody ''internal_error'' err))"

text \<open>
  \<^verbatim>\<open>
  app.get("/pages", async (_req, res) => {
    try {
      const db = await connectToMongo();
      const pageDocs = await pages.find({}).sort({ name: 1, key: 1 }).toArray();
      return res.json({ pages: pageDocs.map(stripMongoId) });
    } catch (err) {
      return res.status(500).json({ error: "internal_error", message: err });
    }
  });
  \<close>
\<close>

definition get_pages :: "faults \<Rightarrow> db \<Rightarrow> response" where
  "get_pages f d =
     try_catch
       (await (connectToMongo f) (\<lambda>_.
        await (store f PagesFind (sort_key by_name_key (pages d))) (\<lambda>pageDocs.
        Inr (json 200 (PagesBody (map stripMongoId pageDocs))))))
       (\<lambda>err. json 500 (ErrorObjBody ''internal_error'' err))"

text \<open>
  \<^verbatim>\<open>
  app.get("/countries/:code", async (req, res) => {
    const code = String(req.params.code || "").toUpperCase();
    if (!code) {
      return res.status(400).json({ error: "bad_request", message: "Missing country code" });
    }
    try {
      const db = await connectToMongo();
      const query = { $or: [{ country: code }, { countries: code }] };
      const entityDocs = await entities.find(query).sort({ name: 1, key: 1 }).toArray();
      const all = entityDocs.map(stripMongoId);
      const countryEntityIndex = all.findIndex(e => e.list === "countries");
      const countryEntity = countryEntityIndex >= 0 ? all[countryEntityIndex] : null;
      const rest = countryEntityIndex >= 0
        ? all.filter((_, i) => i !== countryEntityIndex)
        : all;
      return res.json({ country: countryEntity, entities: rest });
    } catch (err) {
      return res.status(500).json({ error: "internal_error", message: err });
    }
  });
  \<close>
\<close>

definition get_countries_code :: "faults \<Rightarrow> db \<Rightarrow> string \<Rightarrow> response" where
  "get_countries_code f d code_param =
     (let code = toUpperCase code_param
      in if code = [] then json 400 (ErrorBody ''bad_request'' ''Missing country code'')
         else
           try_catch
             (await (connectToMongo f) (\<lambda>_.
              await (store f EntitiesFind
                       (sort_key by_name_key
                          (filter (\<lambda>e. matches_eq (map_of e ''country'') code
                                       \<or> matches_eq (map_of e ''countries'') code)
                             (entities d)))) (\<lambda>entityDocs.
              let all = map stripMongoId entityDocs;
                  countryEntityIndex =
                    findIndex (\<lambda>e. map_of e ''list'' = Some (JStr ''countries'')) all
              in Inr (json 200
                   (case countryEntityIndex of
                      None \<Rightarrow> CountryBody None all
                    | Some i \<Rightarrow> CountryBody (Some (all ! i)) (without_index i all))))))
             (\<lambda>err. json 500 (ErrorObjBody ''internal_error'' err)))"

text \<open>
  \<^verbatim>\<open>
  app.get("/cities/:key", async (req, res) => {
    const key = String(req.params.key || "");
    const city = cityKeyToDisplayName(key);
    if (!city) {
      return res.status(400).json({ error: "bad_request", message: "Missing city key" });
    }
    try {
      const db = await connectToMongo();
      const query = { city };
      const entityDocs = await entities.find(query).sort({ name: 1, key: 1 }).toArray();
      const all = entityDocs.map(stripMongoId);
      const cityEntityIndex = all.findIndex(e => e.list === "cities");
      const cityEntity = cityEntityIndex >= 0 ? all[cityEntityIndex] : null;
      const rest = cityEntityIndex >= 0
        ? all.filter((_, i) => i !== cityEntityIndex)
        : all;
      return res.json({ city: cityEntity, entities: rest });
    } catch (err) {
      return res.status(500).json({ error: "internal_error", message: err });
    }
  });
  \<close>
\<close>

definition get_cities_key :: "faults \<Rightarrow> db \<Rightarrow> string \<Rightarrow> response" where
  "get_cities_key f d key =
     (let city = cityKeyToDisplayName key
      in if city = [] then json 400 (ErrorBody ''bad_request'' ''Missing city key'')
         else
           try_catch
             (await (connectToMongo f) (\<lambda>_.
              await (store f EntitiesFind
                       (sort_key by_name_key
                          (filter (\<lambda>e. matches_eq (map_of e ''city'') city) (entities d))))
                (\<lambda>entityDocs.
              let all = map stripMongoId entityDocs;
                  cityEntityIndex =
                    findIndex (\<lambda>e. map_of e ''list'' = Some (JStr ''cities'')) all
              in Inr (json 200
                   (case cityEntityIndex of
                      None \<Rightarrow> CityBody None all
                    | Some i \<Rightarrow> CityBody (Some (all ! i)) (without_index i all))))))
             (\<lambda>err. json 500 (ErrorObjBody ''internal_error'' err)))"

subsection \<open>Configuration, cryptography, randomness\<close>

text \<open>
  \<^verbatim>\<open>process.env\<close> as the code reads it. The process exits at start when
  \<^verbatim>\<open>SESSION_PEPPER\<close> is missing, so a running server has one.
\<close>

record config =
  SESSION_PEPPER :: string
  NODE_ENV :: "string option"

text \<open>
  The two library calls of the session code:
  \<^verbatim>\<open>crypto.createHmac("sha256", key).update(msg).digest("hex")\<close>, a function of the key
  and the message, and \<^verbatim>\<open>argon2.verify(hash, password)\<close>, which answers or throws.
\<close>

record crypto =
  hmac_sha256_hex :: "string \<Rightarrow> string \<Rightarrow> string"
  argon2_verify :: "string \<Rightarrow> jsval option \<Rightarrow> js_error + bool"

text \<open>
  What one request meets beyond the database: which awaited calls fail, the clock
  (\<^verbatim>\<open>new Date()\<close>) and the bytes \<^verbatim>\<open>crypto.randomBytes\<close> hands out.
\<close>

record world =
  fails :: faults
  now :: nat
  entropy :: "nat \<Rightarrow> 8 word"

text \<open>
  The parts of an Express request the handlers read: the cookie \<^verbatim>\<open>admin_session\<close> as
  \<^verbatim>\<open>cookie-parser\<close> leaves it (a string, or the value of a JSON cookie), the parsed
  body, two headers and the socket's address.
\<close>

record request =
  admin_session :: "jsval option"
  req_body :: "doc option"
  x_forwarded_for :: "jsval option"
  user_agent :: "jsval option"
  remoteAddress :: "jsval option"

text \<open>\<^verbatim>\<open>req.body || {}\<close>.\<close>

definition body_doc :: "request \<Rightarrow> doc" where
  "body_doc rq = (case req_body rq of None \<Rightarrow> [] | Some b \<Rightarrow> b)"

text \<open>\<^verbatim>\<open>buf.toString("base64url")\<close>: six bits per character, no padding.\<close>

definition base64url_alphabet :: string where
  "base64url_alphabet =
     ''ABCDEFGHIJKLMNOPQRSTUVWXYZabcdefghijklmnopqrstuvwxyz0123456789-_''"

definition b64 :: "nat \<Rightarrow> char" where
  "b64 i = base64url_alphabet ! (i mod 64)"

fun base64url :: "8 word list \<Rightarrow> string" where
  "base64url [] = []"
| "base64url [a] = [b64 (unat a div 4), b64 ((unat a mod 4) * 16)]"
| "base64url [a, b] =
     [b64 (unat a div 4), b64 ((unat a mod 4) * 16 + unat b div 16),
      b64 ((unat b mod 16) * 4)]"
| "base64url (a # b # c # bs) =
     [b64 (unat a div 4), b64 ((unat a mod 4) * 16 + unat b div 16),
      b64 ((unat b mod 16) * 4 + unat c div 64), b64 (unat c mod 64)] @ base64url bs"

definition randomBytes :: "(nat \<Rightarrow> 8 word) \<Rightarrow> nat \<Rightarrow> 8 word list" where
  "randomBytes rnd n = map rnd [0..<n]"

text \<open>
  \<^verbatim>\<open>
  function sessionTokenToHash(token) {
    return crypto.createHmac("sha256", SESSION_PEPPER).update(token).digest("hex");
  }
  function makeSessionToken() {
    return crypto.randomBytes(32).toString("base64url");
  }
  \<close>
  \<^verbatim>\<open>update\<close> throws a \<^verbatim>\<open>TypeError\<close> on a value that is not a string (or a buffer,
  which no cookie is).
\<close>

definition sessionTokenToHash :: "crypto \<Rightarrow> config \<Rightarrow> jsval option \<Rightarrow> js_error + string" where
  "sessionTokenToHash cr cfg token =
     (case token of
        Some (JStr s) \<Rightarrow> Inr (hmac_sha256_hex cr (SESSION_PEPPER cfg) s)
      | _ \<Rightarrow> Inl (JsError ''TypeError'' ''ERR_INVALID_ARG_TYPE'' None))"

definition makeSessionToken :: "(nat \<Rightarrow> 8 word) \<Rightarrow> string" where
  "makeSessionToken rnd = base64url (randomBytes rnd 32)"

text \<open>
  \<^verbatim>\<open>
  function adminCookieOptions() {
    const isProd = process.env.NODE_ENV === "production";
    return { httpOnly: true, secure: isProd, sameSite: "none", path: "/",
             maxAge: 1000 * 60 * 60 * 24 * 365 * 10 };
  }
  \<close>
\<close>

definition adminCookieOptions :: "config \<Rightarrow> cookie_options" where
  "adminCookieOptions cfg =
     \<lparr>httpOnly = True, secure = (NODE_ENV cfg = Some ''production''), sameSite = ''none'',
      path = ''/'', maxAge = Some (1000 * 60 * 60 * 24 * 365 * 10)\<rparr>"

subsection \<open>Writes to the store\<close>

text \<open>\<^verbatim>\<open>updateOne(filter, update)\<close> changes the first document the filter selects.\<close>

fun updateOne :: "('a \<Rightarrow> bool) \<Rightarrow> ('a \<Rightarrow> 'a) \<Rightarrow> 'a list \<Rightarrow> 'a list" where
  "updateOne p g [] = []"
| "updateOne p g (x # xs) = (if p x then g x # xs else x # updateOne p g xs)"

definition fresh_id :: "session list \<Rightarrow> nat" where
  "fresh_id ss = Suc (fold max (map sess_id ss) 0)"

definition duplicate_key :: js_error where
  "duplicate_key = JsError ''MongoServerError'' ''E11000 duplicate key error collection'' (Some 11000)"

text \<open>
  \<^verbatim>\<open>sessions.insertOne(doc)\<close>. \<^verbatim>\<open>ensureIndexes\<close> (part\_000 lines 76--82) puts
  a unique index on \<^verbatim>\<open>sessionTokenHash\<close> before the server listens, so the store refuses
  a second session with a hash it holds; otherwise it appends the document under a new
  \<^verbatim>\<open>_id\<close>.
\<close>

definition sessions_insertOne :: "faults \<Rightarrow> session \<Rightarrow> session list \<Rightarrow> js_error + session list" where
  "sessions_insertOne f s ss =
     await (store f SessionsInsertOne ()) (\<lambda>_.
       if sessionTokenHash s \<in> set (map sessionTokenHash ss) then Inl duplicate_key
       else Inr (ss @ [s\<lparr>sess_id := fresh_id ss\<rparr>]))"

subsection \<open>The session middleware (part\_000 lines 177--206)\<close>

text \<open>
  \<^verbatim>\<open>
  async function requireAdminSession(req, res, next) {
    try {
      const raw = req.cookies?.admin_session;
      if (!raw) {
        return res.status(401).json({ error: "unauthorized", message: "Missing admin session" });
      }
      const sessionTokenHash = sessionTokenToHash(raw);
      const db = await connectToMongo();
      const sessions = db.collection("sessions");
      const session = await sessions.findOne({ sessionTokenHash, revokedAt: null });
      if (!session) {
        return res.status(401).json({ error: "unauthorized", message: "Invalid or revoked session" });
      }
      sessions.updateOne(
        { _id: session._id },
        { $set: { lastSeenAt: new Date() } }
      ).catch(() => {});
      req.admin = { accountId: session.accountId, sessionId: session._id };
      return next();
    } catch (err) {
      return res.status(500).json({ error: "internal_error", message: cleanError(err) });
    }
  }
  \<close>
  The result is the response the middleware sends, or the \<^verbatim>\<open>req.admin\<close> it hands to
  the next handler, and the database after it. The update of \<^verbatim>\<open>lastSeenAt\<close> is not
  awaited; the model applies it at once when it succeeds and drops it when it fails.
\<close>

datatype admin = Admin (admin_accountId: nat) (admin_sessionId: nat)

definition touch_lastSeenAt :: "world \<Rightarrow> session \<Rightarrow> db \<Rightarrow> db" where
  "touch_lastSeenAt w s d =
     (case fails w SessionsTouch of
        Some _ \<Rightarrow> d
      | None \<Rightarrow>
          d\<lparr>sessions := updateOne (\<lambda>x. sess_id x = sess_id s)
                            (\<lambda>x. x\<lparr>lastSeenAt := now w\<rparr>) (sessions d)\<rparr>)"

definition requireAdminSession ::
  "crypto \<Rightarrow> config \<Rightarrow> world \<Rightarrow> request \<Rightarrow> db \<Rightarrow> (response + admin) \<times> db" where
  "requireAdminSession cr cfg w rq d =
     try_catch
       (let raw = admin_session rq
        in if \<not> truthy raw
           then Inr (Inl (json 401 (ErrorBody ''unauthorized'' ''Missing admin session'')), d)
           else
             await (sessionTokenToHash cr cfg raw) (\<lambda>h.
             await (connectToMongo (fails w)) (\<lambda>_.
             await (store (fails w) SessionsFindOne
                      (find (\<lambda>s. sessionTokenHash s = h \<and> revokedAt s = None) (sessions d)))
               (\<lambda>found.
                  case found of
                    None \<Rightarrow>
                      Inr (Inl (json 401
                                 (ErrorBody ''unauthorized'' ''Invalid or revoked session'')), d)
                  | Some s \<Rightarrow>
                      Inr (Inr (Admin (accountId s) (sess_id s)), touch_lastSeenAt w s d)))))
       (\<lambda>err. (Inl (json 500 (ErrorBody ''internal_error'' (cleanError err))), d))"

text \<open>\<^verbatim>\<open>app.post(path, requireAdminSession, handler)\<close>.\<close>

definition guarded ::
  "crypto \<Rightarrow> config \<Rightarrow> world \<Rightarrow> request \<Rightarrow> db \<Rightarrow> (db \<Rightarrow> response \<times> db) \<Rightarrow> response \<times> db" where
  "guarded cr cfg w rq d handler =
     (case requireAdminSession cr cfg w rq d of
        (Inl resp, d') \<Rightarrow> (resp, d')
      | (Inr _, d') \<Rightarrow> handler d')"

subsection \<open>The admin routes (part\_000 lines 209--284)\<close>

text \<open>
  \<^verbatim>\<open>
  app.post("/admin/login", async (req, res) => {
    try {
      const { username, password, label } = req.body || {};
      if (!username || !password) {
        return res.status(400).json({ error: "bad_request", message: "Missing username or password" });
      }
      const db = await connectToMongo();
      const account = await accounts.findOne({ username, disabled: false });
      if (!account) {
        return res.status(401).json({ error: "unauthorized", message: "Invalid credentials" });
      }
      const ok = await argon2.verify(account.passwordHash, password);
      if (!ok) {
        return res.status(401).json({ error: "unauthorized", message: "Invalid credentials" });
      }
      const sessionToken = makeSessionToken();
      const sessionTokenHash = sessionTokenToHash(sessionToken);
      const now = new Date();
      await sessions.insertOne({
        accountId: account._id, sessionTokenHash, createdAt: now, lastSeenAt: now,
        revokedAt: null, label: label || null,
        ip: req.headers["x-forwarded-for"] || req.socket?.remoteAddress || null,
        userAgent: req.headers["user-agent"] || null,
      });
      res.cookie("admin_session", sessionToken, adminCookieOptions());
      return res.json({ ok: true });
    } catch (err) {
      return res.status(500).json({ error: "internal_error", message: cleanError(err) });
    }
  });
  \<close>
  A user name is stored as a string, so the query \<^verbatim>\<open>{ username, disabled: false }\<close>
  selects the accounts whose name is the string the body gives.
\<close>

definition post_admin_login ::
  "crypto \<Rightarrow> config \<Rightarrow> world \<Rightarrow> request \<Rightarrow> db \<Rightarrow> response \<times> db" where
  "post_admin_login cr cfg w rq d =
     try_catch
       (let user = map_of (body_doc rq) ''username'';
            password = map_of (body_doc rq) ''password'';
            lbl = map_of (body_doc rq) ''label''
        in if \<not> truthy user \<or> \<not> truthy password
           then Inr (json 400 (ErrorBody ''bad_request'' ''Missing username or password''), d)
           else
             await (connectToMongo (fails w)) (\<lambda>_.
             await (store (fails w) AccountsFindOne
                      (find (\<lambda>a. user = Some (JStr (username a)) \<and> disabled a = False)
                         (accounts d))) (\<lambda>found.
             case found of
               None \<Rightarrow> Inr (json 401 (ErrorBody ''unauthorized'' ''Invalid credentials''), d)
             | Some acct \<Rightarrow>
                 await (argon2_verify cr (passwordHash acct) password) (\<lambda>ok.
                 if \<not> ok
                 then Inr (json 401 (ErrorBody ''unauthorized'' ''Invalid credentials''), d)
                 else
                   (let sessionToken = makeSessionToken (entropy w)
                    in await (sessionTokenToHash cr cfg (Some (JStr sessionToken))) (\<lambda>h.
                       await (sessions_insertOne (fails w)
                                \<lparr>sess_id = 0, accountId = acc_id acct, sessionTokenHash = h,
                                 createdAt = now w, lastSeenAt = now w, revokedAt = None,
                                 label = or_null lbl,
                                 ip = or_null (js_or (x_forwarded_for rq) (remoteAddress rq)),
                                 userAgent = or_null (user_agent rq)\<rparr>
                                (sessions d)) (\<lambda>ss.
                       Inr (\<lparr>status = 200, body = OkBody,
                             cookie = SetCookie ''admin_session'' sessionToken
                                        (adminCookieOptions cfg)\<rparr>,
                            d\<lparr>sessions := ss\<rparr>))))))))
       (\<lambda>err. (json 500 (ErrorBody ''internal_error'' (cleanError err)), d))"

text \<open>
  \<^verbatim>\<open>
  app.post("/admin/logout", requireAdminSession, async (req, res) => {
    try {
      const raw = req.cookies?.admin_session;
      const sessionTokenHash = sessionTokenToHash(raw);
      const db = await connectToMongo();
      await db.collection("sessions").updateOne(
        { sessionTokenHash },
        { $set: { revokedAt: new Date() } }
      );
      res.clearCookie("admin_session", { path: "/" });
      return res.json({ ok: true });
    } catch (err) {
      return res.status(500).json({ error: "internal_error", message: cleanError(err) });
    }
  });
  \<close>
\<close>

definition logout_handler ::
  "crypto \<Rightarrow> config \<Rightarrow> world \<Rightarrow> request \<Rightarrow> db \<Rightarrow> response \<times> db" where
  "logout_handler cr cfg w rq d =
     try_catch
       (await (sessionTokenToHash cr cfg (admin_session rq)) (\<lambda>h.
        await (connectToMongo (fails w)) (\<lambda>_.
        await (store (fails w) SessionsRevoke
                 (updateOne (\<lambda>s. sessionTokenHash s = h)
                    (\<lambda>s. s\<lparr>revokedAt := Some (now w)\<rparr>) (sessions d))) (\<lambda>ss.
        Inr (\<lparr>status = 200, body = OkBody, cookie = ClearCookie ''admin_session'' ''/''\<rparr>,
             d\<lparr>sessions := ss\<rparr>)))))
       (\<lambda>err. (json 500 (ErrorBody ''internal_error'' (cleanError err)), d))"

definition post_admin_logout ::
  "crypto \<Rightarrow> config \<Rightarrow> world \<Rightarrow> request \<Rightarrow> db \<Rightarrow> response \<times> db" where
  "post_admin_logout cr cfg w rq d = guarded cr cfg w rq d (logout_handler cr cfg w rq)"

text \<open>
  \<^verbatim>\<open>
  app.get("/admin/me", async (req, res) => {
    try {
      const raw = req.cookies?.admin_session;
      if (!raw) return res.json({ authenticated: false });
      const sessionTokenHash = sessionTokenToHash(raw);
      const db = await connectToMongo();
      const session = await db.collection("sessions").findOne({ sessionTokenHash, revokedAt: null });
      return res.json({ authenticated: !!session });
    } catch (_err) {
      return res.json({ authenticated: false });
    }
  });
  \<close>
\<close>

definition get_admin_me :: "crypto \<Rightarrow> config \<Rightarrow> world \<Rightarrow> request \<Rightarrow> db \<Rightarrow> response" where
  "get_admin_me cr cfg w rq d =
     try_catch
       (let raw = admin_session rq
        in if \<not> truthy raw then Inr (json 200 (AuthenticatedBody False))
           else
             await (sessionTokenToHash cr cfg raw) (\<lambda>h.
             await (connectToMongo (fails w)) (\<lambda>_.
             await (store (fails w) SessionsFindOne
                      (find (\<lambda>s. sessionTokenHash s = h \<and> revokedAt s = None) (sessions d)))
               (\<lambda>found. Inr (json 200 (AuthenticatedBody (found \<noteq> None)))))))
       (\<lambda>_. json 200 (AuthenticatedBody False))"

subsection \<open>The entity routes (part\_000 lines 322--412)\<close>

definition same_entity :: "string \<Rightarrow> string \<Rightarrow> doc \<Rightarrow> bool" where
  "same_entity list_p key_p e =
     (matches_eq (map_of e ''list'') list_p \<and> matches_eq (map_of e ''key'') key_p)"

text \<open>
  \<^verbatim>\<open>
  app.get("/entities/:list/:key", async (req, res) => {
    const list = String(req.params.list || "");
    const key = String(req.params.key || "");
    if (!list || !key) {
      return res.status(400).json({ error: "bad_request", message: "Missing list or key" });
    }
    try {
      const db = await connectToMongo();
      const doc = await entities.findOne({ list, key });
      if (!doc) {
        return res.status(404).json({ error: "not_found", message: "Entity not found" });
      }
      return res.json(stripMongoId(doc));
    } catch (err) {
      return res.status(500).json({ error: "internal_error", message: cleanError(err) });
    }
  });
  \<close>
\<close>

definition get_entities :: "faults \<Rightarrow> db \<Rightarrow> string \<Rightarrow> string \<Rightarrow> response" where
  "get_entities f d list_p key_p =
     (if list_p = [] \<or> key_p = []
      then json 400 (ErrorBody ''bad_request'' ''Missing list or key'')
      else
        try_catch
          (await (connectToMongo f) (\<lambda>_.
           await (store f EntitiesFindOne (find (same_entity list_p key_p) (entities d)))
             (\<lambda>found.
                case found of
                  None \<Rightarrow> Inr (json 404 (ErrorBody ''not_found'' ''Entity not found''))
                | Some e \<Rightarrow> Inr (json 200 (DocBody (stripMongoId e))))))
          (\<lambda>err. json 500 (ErrorBody ''internal_error'' (cleanError err))))"

fun id_number :: "jsval option \<Rightarrow> nat" where
  "id_number (Some (JId n)) = n"
| "id_number _ = 0"

definition fresh_oid :: "doc list \<Rightarrow> nat" where
  "fresh_oid es = Suc (fold max (map (\<lambda>e. id_number (map_of e ''_id'')) es) 0)"

text \<open>
  \<^verbatim>\<open>entities.insertOne(payload)\<close>: the driver gives the document an \<^verbatim>\<open>_id\<close> when it
  has none, and the store refuses a document whose \<^verbatim>\<open>_id\<close> or whose pair of
  \<^verbatim>\<open>list\<close> and \<^verbatim>\<open>key\<close> (the unique index of \<^verbatim>\<open>ensureIndexes\<close>) it already
  holds. The result is the document as stored and the collection after the insert.
\<close>

definition entities_insertOne :: "faults \<Rightarrow> doc \<Rightarrow> doc list \<Rightarrow> js_error + doc \<times> doc list" where
  "entities_insertOne f p es =
     await (store f EntitiesInsertOne ()) (\<lambda>_.
       let p' = (if map_of p ''_id'' = None \<or> map_of p ''_id'' = Some JNull
                 then AList.update ''_id'' (JId (fresh_oid es)) p else p)
       in if map_of p' ''_id'' \<in> set (map (\<lambda>e. map_of e ''_id'') es)
             \<or> (map_of p' ''list'', map_of p' ''key'')
                  \<in> set (map (\<lambda>e. (map_of e ''list'', map_of e ''key'')) es)
          then Inl duplicate_key
          else Inr (p', es @ [p']))"

text \<open>
  \<^verbatim>\<open>
  app.post("/entities/:list/:key", requireAdminSession, async (req, res) => {
    const list = String(req.params.list || "");
    const key = String(req.params.key || "");
    if (!list || !key) {
      return res.status(400).json({ error: "bad_request", message: "Missing list or key" });
    }
    try {
      const db = await connectToMongo();
      const now = new Date();
      const payload = { ...(req.body || {}) };
      // Enforce canonical identifiers
      payload.list = list;
      payload.key = key;
      payload.updatedAt = now;
      if (!payload.createdAt) payload.createdAt = now;
      const existing = await entities.findOne({ list, key });
      if (existing) {
        return res.status(409).json({ error: "conflict", message: "Entity already exists" });
      }
      await entities.insertOne(payload);
      return res.status(201).json(stripMongoId(payload));
    } catch (err) {
      // Duplicate key protection if index exists
      if (err && (err.code === 11000 || String(err).includes("E11000"))) {
        return res.status(409).json({ error: "conflict", message: "Entity already exists" });
      }
      return res.status(500).json({ error: "internal_error", message: cleanError(err) });
    }
  });
  \<close>
\<close>

definition post_payload :: "world \<Rightarrow> request \<Rightarrow> string \<Rightarrow> string \<Rightarrow> doc" where
  "post_payload w rq list_p key_p =
     (let payload = AList.update ''updatedAt'' (JDate (now w))
                      (AList.update ''key'' (JStr key_p)
                         (AList.update ''list'' (JStr list_p) (body_doc rq)))
      in if \<not> truthy (map_of payload ''createdAt'')
         then AList.update ''createdAt'' (JDate (now w)) payload
         else payload)"

definition post_entities_handler ::
  "world \<Rightarrow> request \<Rightarrow> string \<Rightarrow> string \<Rightarrow> db \<Rightarrow> response \<times> db" where
  "post_entities_handler w rq list_p key_p d =
     (if list_p = [] \<or> key_p = []
      then (json 400 (ErrorBody ''bad_request'' ''Missing list or key''), d)
      else
        try_catch
          (await (connectToMongo (fails w)) (\<lambda>_.
           await (store (fails w) EntitiesFindOne
                    (find (same_entity list_p key_p) (entities d))) (\<lambda>existing.
           case existing of
             Some _ \<Rightarrow> Inr (json 409 (ErrorBody ''conflict'' ''Entity already exists''), d)
           | None \<Rightarrow>
               await (entities_insertOne (fails w) (post_payload w rq list_p key_p)
                        (entities d)) (\<lambda>(stored, es).
               Inr (json 201 (DocBody (stripMongoId stored)), d\<lparr>entities := es\<rparr>)))))
          (\<lambda>err.
             if err_code err = Some 11000 \<or> includes_str (String_of_error err) ''E11000''
             then (json 409 (ErrorBody ''conflict'' ''Entity already exists''), d)
             else (json 500 (ErrorBody ''internal_error'' (cleanError err)), d)))"

definition post_entities ::
  "crypto \<Rightarrow> config \<Rightarrow> world \<Rightarrow> request \<Rightarrow> string \<Rightarrow> string \<Rightarrow> db \<Rightarrow> response \<times> db" where
  "post_entities cr cfg w rq list_p key_p d =
     guarded cr cfg w rq d (post_entities_handler w rq list_p key_p)"

text \<open>
  \<^verbatim>\<open>
  app.put("/entities/:list/:key", requireAdminSession, async (req, res) => {
    const list = String(req.params.list || "");
    const key = String(req.params.key || "");
    if (!list || !key) {
      return res.status(400).json({ error: "bad_request", message: "Missing list or key" });
    }
    try {
      const db = await connectToMongo();
      const now = new Date();
      const patch = { ...(req.body || {}) };
      // Prevent changing identifiers
      delete patch._id;
      delete patch.list;
      delete patch.key;
      const result = await entities.findOneAndUpdate(
        { list, key },
        { $set: { ...patch, updatedAt: now } },
        { returnDocument: "after" }
      );
      if (!result.value) {
        return res.status(404).json({ error: "not_found", message: "Entity not found" });
      }
      return res.json(stripMongoId(result.value));
    } catch (err) {
      return res.status(500).json({ error: "internal_error", message: cleanError(err) });
    }
  });
  \<close>
  \<^verbatim>\<open>$set\<close> writes each field of its argument into the first document the filter
  selects; the names of the patch are taken as names of top-level fields.
  \<^verbatim>\<open>result.value\<close> is the document after the update, or \<^verbatim>\<open>null\<close> when the filter
  selected none.
\<close>

definition put_patch :: "world \<Rightarrow> request \<Rightarrow> doc" where
  "put_patch w rq =
     AList.update ''updatedAt'' (JDate (now w))
       (AList.delete ''key'' (AList.delete ''list'' (AList.delete ''_id'' (body_doc rq))))"

definition entities_findOneAndUpdate ::
  "faults \<Rightarrow> (doc \<Rightarrow> bool) \<Rightarrow> doc \<Rightarrow> doc list \<Rightarrow> js_error + doc option \<times> doc list" where
  "entities_findOneAndUpdate f p set_doc es =
     await (store f EntitiesFindOneAndUpdate ()) (\<lambda>_.
       Inr (map_option (\<lambda>e. AList.merge e set_doc) (find p es),
            updateOne p (\<lambda>e. AList.merge e set_doc) es))"

definition put_entities_handler ::
  "world \<Rightarrow> request \<Rightarrow> string \<Rightarrow> string \<Rightarrow> db \<Rightarrow> response \<times> db" where
  "put_entities_handler w rq list_p key_p d =
     (if list_p = [] \<or> key_p = []
      then (json 400 (ErrorBody ''bad_request'' ''Missing list or key''), d)
      else
        try_catch
          (await (connectToMongo (fails w)) (\<lambda>_.
           await (entities_findOneAndUpdate (fails w) (same_entity list_p key_p)
                    (put_patch w rq) (entities d)) (\<lambda>(result, es).
           case result of
             None \<Rightarrow>
               Inr (json 404 (ErrorBody ''not_found'' ''Entity not found''),
                    d\<lparr>entities := es\<rparr>)
           | Some v \<Rightarrow> Inr (json 200 (DocBody (stripMongoId v)), d\<lparr>entities := es\<rparr>))))
          (\<lambda>err. (json 500 (ErrorBody ''internal_error'' (cleanError err)), d)))"

definition put_entities ::
  "crypto \<Rightarrow> config \<Rightarrow> world \<Rightarrow> request \<Rightarrow> string \<Rightarrow> string \<Rightarrow> db \<Rightarrow> response \<times> db" where
  "put_entities cr cfg w rq list_p key_p d =
     guarded cr cfg w rq d (put_entities_handler w rq list_p key_p)"

subsection \<open>The server as a transition system\<close>

text \<open>The routes of part\_000 that reach the database, with their path parameters.\<close>

datatype route =
    PostAdminLogin
  | PostAdminLogout
  | GetAdminMe
  | GetPages
  | GetPagesId string
  | GetCountriesCode string
  | GetCitiesKey string
  | GetEntities string string
  | PostEntities string string
  | PutEntities string string

definition handle ::
  "crypto \<Rightarrow> config \<Rightarrow> route \<Rightarrow> world \<Rightarrow> request \<Rightarrow> db \<Rightarrow> response \<times> db" where
  "handle cr cfg rt w rq d =
     (case rt of
        PostAdminLogin \<Rightarrow> post_admin_login cr cfg w rq d
      | PostAdminLogout \<Rightarrow> post_admin_logout cr cfg w rq d
      | GetAdminMe \<Rightarrow> (get_admin_me cr cfg w rq d, d)
      | GetPages \<Rightarrow> (get_pages (fails w) d, d)
      | GetPagesId i \<Rightarrow> (get_pages_id (fails w) d i, d)
      | GetCountriesCode c \<Rightarrow> (get_countries_code (fails w) d c, d)
      | GetCitiesKey k \<Rightarrow> (get_cities_key (fails w) d k, d)
      | GetEntities l k \<Rightarrow> (get_entities (fails w) d l k, d)
      | PostEntities l k \<Rightarrow> post_entities cr cfg w rq l k d
      | PutEntities l k \<Rightarrow> put_entities cr cfg w rq l k d)"

text \<open>The database after a sequence of requests, each with the world it meets.\<close>

fun run :: "crypto \<Rightarrow> config \<Rightarrow> (route \<times> world \<times> request) list \<Rightarrow> db \<Rightarrow> db" where
  "run cr cfg [] d = d"
| "run cr cfg ((rt, w, rq) # evs) d = run cr cfg evs (snd (handle cr cfg rt w rq d))"

subsection \<open>Notions the properties are stated with\<close>

text \<open>The world \<open>w\<close>, but with the update of \<^verbatim>\<open>lastSeenAt\<close> failing with \<open>e\<close>
  (\<open>Some e\<close>) or succeeding (\<open>None\<close>).\<close>

definition with_touch :: "js_error option \<Rightarrow> world \<Rightarrow> world" where
  "with_touch x w = w\<lparr>fails := (fails w)(SessionsTouch := x)\<rparr>"

text \<open>The database with every \<^verbatim>\<open>lastSeenAt\<close> blanked: two databases with the same
  image differ at most in when their sessions were last seen.\<close>

definition modulo_lastSeenAt :: "db \<Rightarrow> db" where
  "modulo_lastSeenAt d = d\<lparr>sessions := map (\<lambda>s. s\<lparr>lastSeenAt := 0\<rparr>) (sessions d)\<rparr>"

subsection \<open>Sessions over time\<close>

text \<open>A session the query \<^verbatim>\<open>{ sessionTokenHash: h, revokedAt: null }\<close> selects.\<close>

definition active_with :: "string \<Rightarrow> session \<Rightarrow> bool" where
  "active_with h s = (sessionTokenHash s = h \<and> revokedAt s = None)"

text \<open>The session document a successful login for the account \<open>acct\<close> inserts.\<close>

definition login_session ::
  "crypto \<Rightarrow> config \<Rightarrow> world \<Rightarrow> request \<Rightarrow> account \<Rightarrow> db \<Rightarrow> session" where
  "login_session cr cfg w rq acct d =
     \<lparr>sess_id = fresh_id (sessions d), accountId = acc_id acct,
      sessionTokenHash = hmac_sha256_hex cr (SESSION_PEPPER cfg) (makeSessionToken (entropy w)),
      createdAt = now w, lastSeenAt = now w, revokedAt = None,
      label = or_null (map_of (body_doc rq) ''label''),
      ip = or_null (js_or (x_forwarded_for rq) (remoteAddress rq)),
      userAgent = or_null (user_agent rq)\<rparr>"

text \<open>
  The three writes the server makes to the session collection: the touch of
  \<^verbatim>\<open>lastSeenAt\<close> by \<^verbatim>\<open>_id\<close>, the insert of a session that is not revoked and whose
  hash the unique index admits, and the revocation by hash. \<open>R\<close> says which hashes a
  revocation may name.
\<close>

inductive evolve1 :: "(string \<Rightarrow> bool) \<Rightarrow> session list \<Rightarrow> session list \<Rightarrow> bool"
  for R :: "string \<Rightarrow> bool" where
    touch: "evolve1 R ss (updateOne (\<lambda>x. sess_id x = i) (\<lambda>x. x\<lparr>lastSeenAt := n\<rparr>) ss)"
  | insert: "sessionTokenHash s \<notin> set (map sessionTokenHash ss) \<Longrightarrow> revokedAt s = None \<Longrightarrow>
             evolve1 R ss (ss @ [s])"
  | revoke: "R h \<Longrightarrow>
             evolve1 R ss (updateOne (\<lambda>x. sessionTokenHash x = h)
                             (\<lambda>x. x\<lparr>revokedAt := Some n\<rparr>) ss)"

text \<open>The request is a logout that presents a token whose digest is \<open>h\<close>.\<close>

definition revokes :: "crypto \<Rightarrow> config \<Rightarrow> route \<Rightarrow> request \<Rightarrow> string \<Rightarrow> bool" where
  "revokes cr cfg rt rq h =
     (rt = PostAdminLogout \<and> sessionTokenToHash cr cfg (admin_session rq) = Inr h)"

text \<open>
  \<open>keeps s s'\<close>: the session \<open>s'\<close> is the session \<open>s\<close> later on, revoked if \<open>s\<close> was.
  \<open>never_unrevoked ss ss'\<close>: the collection \<open>ss'\<close> holds every session of \<open>ss\<close> at
  its place, none of them revoked before and active now.
\<close>

definition keeps :: "session \<Rightarrow> session \<Rightarrow> bool" where
  "keeps s s' =
     (sess_id s' = sess_id s \<and> accountId s' = accountId s
      \<and> sessionTokenHash s' = sessionTokenHash s \<and> createdAt s' = createdAt s
      \<and> (revokedAt s \<noteq> None \<longrightarrow> revokedAt s' \<noteq> None))"

definition never_unrevoked :: "session list \<Rightarrow> session list \<Rightarrow> bool" where
  "never_unrevoked ss ss' =
     (length ss \<le> length ss' \<and> (\<forall>i<length ss. keeps (ss ! i) (ss' ! i)))"


subsection \<open>Concrete requests and stores\<close>

text \<open>
  Data on which the model is run below. \<open>test_crypto\<close> stands in for the two library
  calls: its digest joins key and token, and a stored hash verifies the password it
  spells.
\<close>

definition test_crypto :: crypto where
  "test_crypto =
     \<lparr>hmac_sha256_hex = (\<lambda>k m. k @ ''|'' @ m),
      argon2_verify = (\<lambda>h p. Inr (p = Some (JStr h)))\<rparr>"

definition test_config :: config where
  "test_config = \<lparr>SESSION_PEPPER = ''pepper'', NODE_ENV = None\<rparr>"

definition no_faults :: faults where
  "no_faults = (\<lambda>_. None)"

definition calm :: world where
  "calm = \<lparr>fails = no_faults, now = 1000, entropy = (\<lambda>_. 0)\<rparr>"

definition later :: world where
  "later = \<lparr>fails = no_faults, now = 2000, entropy = (\<lambda>_. 255)\<rparr>"

definition admin_account :: account where
  "admin_account = \<lparr>acc_id = 7, username = ''admin'', passwordHash = ''correct'', disabled = False\<rparr>"

definition page_x :: doc where
  "page_x = [(''_id'', JId 1), (''key'', JStr ''x''), (''name'', JStr ''X'')]"

definition entity_b :: doc where
  "entity_b =
     [(''_id'', JId 2), (''list'', JStr ''x''), (''name'', JStr ''A''), (''key'', JStr ''b'')]"

definition entity_a :: doc where
  "entity_a =
     [(''_id'', JId 3), (''list'', JStr ''x''), (''name'', JStr ''A''), (''key'', JStr ''a'')]"

definition db0 :: db where
  "db0 = \<lparr>accounts = [admin_account], sessions = [], entities = [entity_b, entity_a],
          pages = [page_x]\<rparr>"

definition with_body :: "doc \<Rightarrow> request" where
  "with_body b = \<lparr>admin_session = None, req_body = Some b, x_forwarded_for = None,
                  user_agent = None, remoteAddress = None\<rparr>"

definition with_cookie :: "jsval \<Rightarrow> request" where
  "with_cookie c = \<lparr>admin_session = Some c, req_body = None, x_forwarded_for = None,
                    user_agent = None, remoteAddress = None\<rparr>"

definition login_request :: request where
  "login_request = with_body [(''username'', JStr ''admin''), (''password'', JStr ''correct'')]"

text \<open>The token and the session a login in the world \<open>calm\<close> creates, and the store
  after it.\<close>

definition token0 :: string where
  "token0 = ''AAAAAAAAAAAAAAAAAAAAAAAAAAAAAAAAAAAAAAAAAAA''"

definition session0 :: session where
  "session0 =
     \<lparr>sess_id = 1, accountId = 7, sessionTokenHash = ''pepper|'' @ token0,
      createdAt = 1000, lastSeenAt = 1000, revokedAt = None,
      label = JNull, ip = JNull, userAgent = JNull\<rparr>"

definition db1 :: db where
  "db1 = db0\<lparr>sessions := [session0]\<rparr>"

definition boom :: js_error where
  "boom = JsError ''MongoNetworkError'' ''connection closed'' None"

definition entity_request :: request where
  "entity_request =
     \<lparr>admin_session = Some (JStr token0),
      req_body = Some [(''list'', JStr ''zzz''), (''key'', JStr ''q''), (''name'', JStr ''N'')],
      x_forwarded_for = None, user_agent = None, remoteAddress = None\<rparr>"

text \<open>The store after the logout of \<open>token0\<close> in the world \<open>later\<close>.\<close>

definition db2 :: db where
  "db2 = db1\<lparr>sessions := [session0\<lparr>lastSeenAt := 2000, revokedAt := Some 2000\<rparr>]\<rparr>"

text \<open>The token and the session of a second login, in the world \<open>later\<close>, and the store
  after both logins.\<close>

definition token1 :: string where
  "token1 = ''__________________________________________8''"

definition session1 :: session where
  "session1 =
     \<lparr>sess_id = 2, accountId = 7, sessionTokenHash = ''pepper|'' @ token1,
      createdAt = 2000, lastSeenAt = 2000, revokedAt = None,
      label = JNull, ip = JNull, userAgent = JNull\<rparr>"

definition db12 :: db where
  "db12 = db0\<lparr>sessions := [session0, session1]\<rparr>"

text \<open>An account whose stored hash verifies the empty password, under \<open>test_crypto\<close>.\<close>

definition blank_account :: account where
  "blank_account = \<lparr>acc_id = 8, username = ''admin'', passwordHash = [], disabled = False\<rparr>"

definition blank_db :: db where
  "blank_db = \<lparr>accounts = [blank_account], sessions = [], entities = [], pages = []\<rparr>"

definition own_id_request :: request where
  "own_id_request =
     \<lparr>admin_session = Some (JStr token0),
      req_body = Some [(''_id'', JStr ''mine''), (''name'', JStr ''N'')],
      x_forwarded_for = None, user_agent = None, remoteAddress = None\<rparr>"

text \<open>
  A password check that throws on a password that is not a string, as
  \<^verbatim>\<open>Buffer.from\<close> does on a number; on strings it is \<^const>\<open>test_crypto\<close>.
\<close>

definition strict_crypto :: crypto where
  "strict_crypto =
     test_crypto\<lparr>argon2_verify :=
       (\<lambda>h p. case p of
                 Some (JStr s) \<Rightarrow> Inr (s = h)
               | _ \<Rightarrow> Inl (JsError ''TypeError'' ''ERR_INVALID_ARG_TYPE'' None))\<rparr>"

section \<open>Properties\<close>

lemma toUpperChar_toLowerChar: "toUpperChar (toLowerChar c) = toUpperChar c"
  unfolding toUpperChar_def toLowerChar_def less_eq_char_def by simp

lemma toTitleCaseWord_title_cased: "toTitleCaseWord w = title_cased w"
  by (cases w) (simp_all add: toTitleCaseWord_def toLowerCase_def toUpperCase_def
      toUpperChar_toLowerChar)

lemma cityKeyToDisplayName_refines:
  "cityKeyToDisplayName key = cityKeyToDisplayName_spec key"
proof (cases "tokens key = []")
  case True
  then show ?thesis
    by (simp add: cityKeyToDisplayName_def cityKeyToDisplayName_spec_def tokens_def)
next
  case False
  have tc: "map toTitleCaseWord xs = map title_cased xs" for xs
    by (simp add: toTitleCaseWord_title_cased)
  have l: "tokens key ! (length (tokens key) - 1) = last (tokens key)"
    using False by (simp add: last_conv_nth)
  have b: "take (length (tokens key) - 1) (tokens key) = butlast (tokens key)"
    by (simp add: butlast_conv_take)
  have n: "(0 < length (tokens key) - 1) = (2 \<le> length (tokens key))"
    by arith
  show ?thesis
    using False l b n
    by (auto simp add: cityKeyToDisplayName_def cityKeyToDisplayName_spec_def Let_def tc
        toUpperCase_def tokens_def [symmetric])
qed

subsection \<open>City keys\<close>







lemma cityKeyToDisplayName_examples:
  "cityKeyToDisplayName ''den-haag'' = ''Den Haag''"
  "cityKeyToDisplayName ''new-york-ny'' = ''New York, NY''"
  "cityKeyToDisplayName ''ny'' = ''Ny''"
  "cityKeyToDisplayName ''a--B-c'' = ''A B C''"
  by code_simp+


subsection \<open>The order of the content routes\<close>

lemmas io_defs = try_catch_def await_def store_def connectToMongo_def json_def

lemma by_name_key_stripMongoId: "by_name_key (stripMongoId d) = by_name_key d"
  by (simp add: by_name_key_def stripMongoId_def delete_conv)

lemma sorted_strip_sort:
  "sorted (map by_name_key (map stripMongoId (sort_key by_name_key xs)))"
  by (simp add: by_name_key_stripMongoId comp_def)

lemma sorted_without_index:
  assumes "sorted (map k xs)"
  shows "sorted (map k (without_index i xs))"
proof -
  have "map (k \<circ> fst) (zip xs [0..<length xs]) = map k xs"
    by (simp add: map_fst_zip flip: map_map)
  with assms have "sorted (map (k \<circ> fst) (zip xs [0..<length xs]))" by simp
  then have "sorted (map (k \<circ> fst) (filter (\<lambda>(x, j). j \<noteq> i) (zip xs [0..<length xs])))"
    by (rule sorted_filter)
  then show ?thesis by (simp add: without_index_def)
qed

lemma get_pages_sorted:
  "body (get_pages f d) = PagesBody ps \<Longrightarrow>
     sorted (map by_name_key ps) \<and> set ps = stripMongoId ` set (pages d)"
  using sorted_strip_sort [of "pages d"]
  by (auto simp: get_pages_def io_defs split: option.splits)

lemma get_pages_id_sorted:
  "body (get_pages_id f d i) = PageBody info es \<Longrightarrow>
     sorted (map by_name_key es)
     \<and> set es = stripMongoId ` {e \<in> set (entities d). matches_eq (map_of e ''list'') i}"
  using sorted_strip_sort [of "filter (\<lambda>e. matches_eq (map_of e ''list'') i) (entities d)"]
  by (auto simp: get_pages_id_def io_defs split: option.splits)

lemma get_countries_code_sorted:
  "body (get_countries_code f d c) = CountryBody hoisted es \<Longrightarrow> sorted (map by_name_key es)"
  using sorted_strip_sort [of "filter (\<lambda>e. matches_eq (map_of e ''country'') (toUpperCase c)
          \<or> matches_eq (map_of e ''countries'') (toUpperCase c)) (entities d)"]
  by (auto simp: get_countries_code_def io_defs Let_def sorted_without_index
      split: option.splits if_splits)

lemma get_cities_key_sorted:
  "body (get_cities_key f d k) = CityBody hoisted es \<Longrightarrow> sorted (map by_name_key es)"
  using sorted_strip_sort [of "filter (\<lambda>e. matches_eq (map_of e ''city'') (cityKeyToDisplayName k))
          (entities d)"]
  by (auto simp: get_cities_key_def io_defs Let_def sorted_without_index
      split: option.splits if_splits)

text \<open>
  In part\_000 and part\_001 the four content routes answer with lists in the order of
  \<open>by_name_key\<close>: by name, and among equal names by key. For the two routes that hoist
  the canonical entity out of the list, the rest of the list keeps that order.
\<close>

theorem content_routes_sorted:
  "(body (get_pages f d) = PagesBody ps \<longrightarrow>
      sorted (map by_name_key ps) \<and> set ps = stripMongoId ` set (pages d))
   \<and> (body (get_pages_id f d i) = PageBody info es \<longrightarrow>
      sorted (map by_name_key es)
      \<and> set es = stripMongoId ` {e \<in> set (entities d). matches_eq (map_of e ''list'') i})
   \<and> (body (get_countries_code f d c) = CountryBody h1 es1 \<longrightarrow> sorted (map by_name_key es1))
   \<and> (body (get_cities_key f d k) = CityBody h2 es2 \<longrightarrow> sorted (map by_name_key es2))"
  using get_pages_sorted [of f d ps] get_pages_id_sorted [of f d i info es]
    get_countries_code_sorted [of f d c h1 es1] get_cities_key_sorted [of f d k h2 es2]
  by blast

theorem content_routes_sorted_witness:
  "body (get_pages no_faults db0) = PagesBody [stripMongoId page_x]
   \<and> body (get_pages_id no_faults db0 ''x'')
       = PageBody (stripMongoId page_x) [stripMongoId entity_a, stripMongoId entity_b]
   \<and> sorted (map by_name_key [stripMongoId entity_a, stripMongoId entity_b])
   \<and> body (get_countries_code no_faults db0 ''be'') = CountryBody None []
   \<and> body (get_cities_key no_faults db0 ''den-haag'') = CityBody None []"
proof -
  have p: "body (get_pages no_faults db0) = PagesBody [stripMongoId page_x]"
    by (simp add: get_pages_def io_defs no_faults_def db0_def)
  have i: "body (get_pages_id no_faults db0 ''x'')
       = PageBody (stripMongoId page_x) [stripMongoId entity_a, stripMongoId entity_b]"
    by (simp add: get_pages_id_def io_defs no_faults_def db0_def page_x_def entity_a_def
        entity_b_def by_name_key_def)
  have c: "body (get_countries_code no_faults db0 ''be'') = CountryBody None []"
    by (simp add: get_countries_code_def io_defs no_faults_def db0_def page_x_def entity_a_def
        entity_b_def toUpperCase_def)
  have k: "body (get_cities_key no_faults db0 ''den-haag'') = CityBody None []"
    by (simp add: get_cities_key_def io_defs no_faults_def db0_def page_x_def entity_a_def
        entity_b_def cityKeyToDisplayName_refines cityKeyToDisplayName_spec_def tokens_def)
  show ?thesis
    using p i c k
      content_routes_sorted [of no_faults db0 "[stripMongoId page_x]" "''x''"
        "stripMongoId page_x" "[stripMongoId entity_a, stripMongoId entity_b]"
        "''be''" None "[]" "''den-haag''" None "[]"]
    by blast
qed

text \<open>
  C8. \<^verbatim>\<open>GET /pages/:id\<close> of \<^verbatim>\<open>src/server.js\<close> sorts by name only. On a store
  with the page \<^verbatim>\<open>x\<close> and two entities of that list with the same name, stored with
  key \<^verbatim>\<open>b\<close> before key \<^verbatim>\<open>a\<close>, it answers with \<^verbatim>\<open>b\<close> before \<^verbatim>\<open>a\<close>:
  the list is not in the order by name and then key. The route of part\_000 and part\_001
  answers the same request with \<^verbatim>\<open>a\<close> before \<^verbatim>\<open>b\<close>.
\<close>

theorem server_js_pages_id_ties_unsorted:
  "server_js_get_pages_id no_faults db0 ''x''
     = json 200 (PageBody (stripMongoId page_x) [stripMongoId entity_b, stripMongoId entity_a])
   \<and> \<not> sorted (map by_name_key [stripMongoId entity_b, stripMongoId entity_a])
   \<and> get_pages_id no_faults db0 ''x''
     = json 200 (PageBody (stripMongoId page_x) [stripMongoId entity_a, stripMongoId entity_b])"
  by (simp add: server_js_get_pages_id_def get_pages_id_def io_defs no_faults_def db0_def
      page_x_def entity_a_def entity_b_def by_name_def by_name_key_def stripMongoId_def)

subsection \<open>Lists and the store\<close>

lemma find_SomeD: "find P xs = Some y \<Longrightarrow> y \<in> set xs \<and> P y"
  by (induction xs) (auto split: if_splits)

lemma find_ex: "(\<exists>y. find P xs = Some y) = (\<exists>x\<in>set xs. P x)"
  by (induction xs) auto

lemma map_updateOne: "(\<And>x. h (g x) = h x) \<Longrightarrow> map h (updateOne p g xs) = map h xs"
  by (induction xs) auto

lemma length_updateOne: "length (updateOne p g xs) = length xs"
  by (induction xs) auto

lemma modulo_lastSeenAt_touch: "modulo_lastSeenAt (touch_lastSeenAt w s d) = modulo_lastSeenAt d"
  by (simp add: modulo_lastSeenAt_def touch_lastSeenAt_def map_updateOne split: option.splits)

lemma updateOne_cong_map:
  assumes "map h xs = map h ys"
    and "\<And>x y. h x = h y \<Longrightarrow> p x = p y"
    and "\<And>x y. h x = h y \<Longrightarrow> h (g x) = h (g y)"
  shows "map h (updateOne p g xs) = map h (updateOne p g ys)"
  using assms(1)
proof (induction xs arbitrary: ys)
  case Nil
  then show ?case by simp
next
  case (Cons x xs)
  then obtain y ys' where ys: "ys = y # ys'" by (cases ys) auto
  with Cons.prems have h: "h x = h y" and t: "map h xs = map h ys'" by auto
  show ?case
    using h t Cons.IH [OF t] assms(2) [OF h] assms(3) [OF h] by (simp add: ys)
qed

lemma requireAdminSession_touch:
  "fst (requireAdminSession cr cfg (w\<lparr>fails := (fails w)(SessionsTouch := x)\<rparr>) rq d)
     = fst (requireAdminSession cr cfg (w\<lparr>fails := (fails w)(SessionsTouch := y)\<rparr>) rq d)
   \<and> modulo_lastSeenAt (snd (requireAdminSession cr cfg (w\<lparr>fails := (fails w)(SessionsTouch := x)\<rparr>) rq d))
     = modulo_lastSeenAt (snd (requireAdminSession cr cfg (w\<lparr>fails := (fails w)(SessionsTouch := y)\<rparr>) rq d))"
  by (auto simp: requireAdminSession_def io_defs Let_def modulo_lastSeenAt_touch
      split: option.splits sum.splits)

lemma post_entities_handler_world:
  assumes "now w' = now w" "fails w' ConnectToMongo = fails w ConnectToMongo"
    "fails w' EntitiesFindOne = fails w EntitiesFindOne"
    "fails w' EntitiesInsertOne = fails w EntitiesInsertOne"
  shows "post_entities_handler w' rq l k d = post_entities_handler w rq l k d"
  unfolding post_entities_handler_def entities_insertOne_def post_payload_def store_def
    connectToMongo_def assms by (rule refl)

lemma put_entities_handler_world:
  assumes "now w' = now w" "fails w' ConnectToMongo = fails w ConnectToMongo"
    "fails w' EntitiesFindOneAndUpdate = fails w EntitiesFindOneAndUpdate"
  shows "put_entities_handler w' rq l k d = put_entities_handler w rq l k d"
  unfolding put_entities_handler_def entities_findOneAndUpdate_def put_patch_def store_def
    connectToMongo_def assms by (rule refl)

lemma logout_handler_world:
  assumes "now w' = now w" "fails w' ConnectToMongo = fails w ConnectToMongo"
    "fails w' SessionsRevoke = fails w SessionsRevoke"
  shows "logout_handler cr cfg w' rq d = logout_handler cr cfg w rq d"
  unfolding logout_handler_def store_def connectToMongo_def assms by (rule refl)

lemma post_entities_handler_sessions:
  "post_entities_handler w rq l k (d\<lparr>sessions := ss\<rparr>)
     = (fst (post_entities_handler w rq l k d),
        (snd (post_entities_handler w rq l k d))\<lparr>sessions := ss\<rparr>)"
  by (simp add: post_entities_handler_def entities_insertOne_def io_defs Let_def
      split: option.splits sum.splits prod.splits)

lemma put_entities_handler_sessions:
  "put_entities_handler w rq l k (d\<lparr>sessions := ss\<rparr>)
     = (fst (put_entities_handler w rq l k d),
        (snd (put_entities_handler w rq l k d))\<lparr>sessions := ss\<rparr>)"
  by (simp add: put_entities_handler_def entities_findOneAndUpdate_def io_defs
      split: option.splits sum.splits prod.splits)

lemma logout_handler_response:
  "fst (logout_handler cr cfg w rq d) = fst (logout_handler cr cfg w rq d')"
  by (simp add: logout_handler_def io_defs split: option.splits sum.splits)

lemma modulo_lastSeenAt_eq:
  "(modulo_lastSeenAt d1 = modulo_lastSeenAt d2) =
     (accounts d1 = accounts d2 \<and> entities d1 = entities d2 \<and> pages d1 = pages d2
      \<and> map (\<lambda>s. s\<lparr>lastSeenAt := 0\<rparr>) (sessions d1) = map (\<lambda>s. s\<lparr>lastSeenAt := 0\<rparr>) (sessions d2))"
  by (cases d1; cases d2) (auto simp: modulo_lastSeenAt_def)

lemma blanked_hash: "x\<lparr>lastSeenAt := 0\<rparr> = y\<lparr>lastSeenAt := 0\<rparr> \<Longrightarrow> sessionTokenHash x = sessionTokenHash y"
  by (cases x; cases y) simp

lemma blanked_revoke:
  "x\<lparr>lastSeenAt := 0\<rparr> = y\<lparr>lastSeenAt := 0\<rparr> \<Longrightarrow>
     x\<lparr>revokedAt := r, lastSeenAt := 0\<rparr> = y\<lparr>revokedAt := r, lastSeenAt := 0\<rparr>"
  by (cases x; cases y) simp

lemma logout_handler_forget:
  assumes "modulo_lastSeenAt d1 = modulo_lastSeenAt d2"
  shows "modulo_lastSeenAt (snd (logout_handler cr cfg w rq d1))
       = modulo_lastSeenAt (snd (logout_handler cr cfg w rq d2))"
proof -
  have m: "map (\<lambda>s. s\<lparr>lastSeenAt := 0\<rparr>) (updateOne (\<lambda>s. sessionTokenHash s = h)
              (\<lambda>s. s\<lparr>revokedAt := Some (now w)\<rparr>) (sessions d1))
         = map (\<lambda>s. s\<lparr>lastSeenAt := 0\<rparr>) (updateOne (\<lambda>s. sessionTokenHash s = h)
              (\<lambda>s. s\<lparr>revokedAt := Some (now w)\<rparr>) (sessions d2))" for h
    using assms
    by (intro updateOne_cong_map) (auto simp: modulo_lastSeenAt_eq dest: blanked_hash blanked_revoke)
  show ?thesis
    using assms m
    by (simp add: logout_handler_def io_defs modulo_lastSeenAt_eq
        split: option.splits sum.splits)
qed

lemma requireAdminSession_with_touch:
  "fst (requireAdminSession cr cfg (with_touch x w) rq d)
     = fst (requireAdminSession cr cfg (with_touch y w) rq d)
   \<and> modulo_lastSeenAt (snd (requireAdminSession cr cfg (with_touch x w) rq d))
     = modulo_lastSeenAt (snd (requireAdminSession cr cfg (with_touch y w) rq d))"
  using requireAdminSession_touch [of cr cfg w x rq d y] by (simp add: with_touch_def)

lemma requireAdminSession_sessions_only:
  "\<exists>ss. snd (requireAdminSession cr cfg w rq d) = d\<lparr>sessions := ss\<rparr>"
proof -
  have "d = d\<lparr>sessions := sessions d\<rparr>" by simp
  then have a: "\<exists>ss. d = d\<lparr>sessions := ss\<rparr>" by blast
  have b: "\<exists>ss. touch_lastSeenAt w s d = d\<lparr>sessions := ss\<rparr>" for s
    using a by (auto simp: touch_lastSeenAt_def split: option.splits)
  show ?thesis
    using a b
    by (auto simp: requireAdminSession_def io_defs Let_def split: option.splits sum.splits)
qed

lemma guarded_swallows_touch:
  assumes world: "\<And>x d'. H (with_touch x w) d' = H w d'"
    and frame: "\<And>d' ss. fst (H w (d'\<lparr>sessions := ss\<rparr>)) = fst (H w d')"
    and forget: "\<And>d1 d2. modulo_lastSeenAt d1 = modulo_lastSeenAt d2 \<Longrightarrow>
                   modulo_lastSeenAt (snd (H w d1)) = modulo_lastSeenAt (snd (H w d2))"
  shows "fst (guarded cr cfg (with_touch x w) rq d (H (with_touch x w)))
           = fst (guarded cr cfg (with_touch y w) rq d (H (with_touch y w)))
         \<and> modulo_lastSeenAt (snd (guarded cr cfg (with_touch x w) rq d (H (with_touch x w))))
           = modulo_lastSeenAt (snd (guarded cr cfg (with_touch y w) rq d (H (with_touch y w))))"
proof -
  obtain o1 d1 where r1: "requireAdminSession cr cfg (with_touch x w) rq d = (o1, d1)"
    by (cases "requireAdminSession cr cfg (with_touch x w) rq d")
  obtain o2 d2 where r2: "requireAdminSession cr cfg (with_touch y w) rq d = (o2, d2)"
    by (cases "requireAdminSession cr cfg (with_touch y w) rq d")
  from requireAdminSession_with_touch [of cr cfg x w rq d y] r1 r2
  have o: "o1 = o2" and f: "modulo_lastSeenAt d1 = modulo_lastSeenAt d2" by simp_all
  obtain s1 where s1: "d1 = d\<lparr>sessions := s1\<rparr>"
    using requireAdminSession_sessions_only [of cr cfg "with_touch x w" rq d] r1 by auto
  obtain s2 where s2: "d2 = d\<lparr>sessions := s2\<rparr>"
    using requireAdminSession_sessions_only [of cr cfg "with_touch y w" rq d] r2 by auto
  show ?thesis
  proof (cases o2)
    case (Inl r)
    then show ?thesis using r1 r2 o f by (simp add: guarded_def)
  next
    case (Inr a)
    have "fst (H w d1) = fst (H w d2)" using frame s1 s2 by simp
    moreover have "modulo_lastSeenAt (snd (H w d1)) = modulo_lastSeenAt (snd (H w d2))"
      using forget [OF f] .
    ultimately show ?thesis using r1 r2 o Inr by (simp add: guarded_def world)
  qed
qed

lemma modulo_lastSeenAt_sessions_upd:
  "modulo_lastSeenAt d1 = modulo_lastSeenAt d2 \<Longrightarrow> \<exists>ss. d1 = d2\<lparr>sessions := ss\<rparr>"
  by (cases d1; cases d2) (auto simp: modulo_lastSeenAt_def)

lemma modulo_lastSeenAt_frame:
  "modulo_lastSeenAt (d\<lparr>sessions := ss\<rparr>) = (modulo_lastSeenAt d)\<lparr>sessions := map (\<lambda>s. s\<lparr>lastSeenAt := 0\<rparr>) ss\<rparr>"
  by (simp add: modulo_lastSeenAt_def)

lemma post_entities_handler_keeps_sessions:
  "sessions (snd (post_entities_handler w rq l k d)) = sessions d"
  by (simp add: post_entities_handler_def entities_insertOne_def io_defs Let_def
      split: option.splits sum.splits prod.splits)

lemma put_entities_handler_keeps_sessions:
  "sessions (snd (put_entities_handler w rq l k d)) = sessions d"
  by (simp add: put_entities_handler_def entities_findOneAndUpdate_def io_defs
      split: option.splits sum.splits prod.splits)

lemma post_entities_handler_forget:
  assumes "modulo_lastSeenAt d1 = modulo_lastSeenAt d2"
  shows "modulo_lastSeenAt (snd (post_entities_handler w rq l k d1))
       = modulo_lastSeenAt (snd (post_entities_handler w rq l k d2))"
proof -
  obtain ss where d1: "d1 = d2\<lparr>sessions := ss\<rparr>"
    using modulo_lastSeenAt_sessions_upd [OF assms] by blast
  have "map (\<lambda>s. s\<lparr>lastSeenAt := 0\<rparr>) ss = map (\<lambda>s. s\<lparr>lastSeenAt := 0\<rparr>) (sessions d2)"
    using assms d1 by (simp add: modulo_lastSeenAt_eq)
  then show ?thesis
    using post_entities_handler_keeps_sessions [of w rq l k d2]
    by (simp add: d1 post_entities_handler_sessions modulo_lastSeenAt_def)
qed

lemma put_entities_handler_forget:
  assumes "modulo_lastSeenAt d1 = modulo_lastSeenAt d2"
  shows "modulo_lastSeenAt (snd (put_entities_handler w rq l k d1))
       = modulo_lastSeenAt (snd (put_entities_handler w rq l k d2))"
proof -
  obtain ss where d1: "d1 = d2\<lparr>sessions := ss\<rparr>"
    using modulo_lastSeenAt_sessions_upd [OF assms] by blast
  have "map (\<lambda>s. s\<lparr>lastSeenAt := 0\<rparr>) ss = map (\<lambda>s. s\<lparr>lastSeenAt := 0\<rparr>) (sessions d2)"
    using assms d1 by (simp add: modulo_lastSeenAt_eq)
  then show ?thesis
    using put_entities_handler_keeps_sessions [of w rq l k d2]
    by (simp add: d1 put_entities_handler_sessions modulo_lastSeenAt_def)
qed

lemma logout_swallows_touch:
  "fst (post_admin_logout cr cfg (with_touch x w) rq d)
     = fst (post_admin_logout cr cfg (with_touch y w) rq d)
   \<and> modulo_lastSeenAt (snd (post_admin_logout cr cfg (with_touch x w) rq d))
     = modulo_lastSeenAt (snd (post_admin_logout cr cfg (with_touch y w) rq d))"
  unfolding post_admin_logout_def
proof (rule guarded_swallows_touch [where H = "\<lambda>w. logout_handler cr cfg w rq"])
  show "logout_handler cr cfg (with_touch z w) rq d' = logout_handler cr cfg w rq d'" for z d'
    by (rule logout_handler_world) (simp_all add: with_touch_def)
  show "fst (logout_handler cr cfg w rq (d'\<lparr>sessions := ss\<rparr>)) = fst (logout_handler cr cfg w rq d')"
    for d' ss
    by (rule logout_handler_response)
  show "modulo_lastSeenAt d1 = modulo_lastSeenAt d2 \<Longrightarrow>
        modulo_lastSeenAt (snd (logout_handler cr cfg w rq d1))
          = modulo_lastSeenAt (snd (logout_handler cr cfg w rq d2))" for d1 d2
    by (rule logout_handler_forget)
qed

lemma post_entities_swallows_touch:
  "fst (post_entities cr cfg (with_touch x w) rq l k d)
     = fst (post_entities cr cfg (with_touch y w) rq l k d)
   \<and> modulo_lastSeenAt (snd (post_entities cr cfg (with_touch x w) rq l k d))
     = modulo_lastSeenAt (snd (post_entities cr cfg (with_touch y w) rq l k d))"
  unfolding post_entities_def
proof (rule guarded_swallows_touch [where H = "\<lambda>w. post_entities_handler w rq l k"])
  show "post_entities_handler (with_touch z w) rq l k d' = post_entities_handler w rq l k d'"
    for z d'
    by (rule post_entities_handler_world) (simp_all add: with_touch_def)
  show "fst (post_entities_handler w rq l k (d'\<lparr>sessions := ss\<rparr>))
          = fst (post_entities_handler w rq l k d')" for d' ss
    by (simp add: post_entities_handler_sessions)
  show "modulo_lastSeenAt d1 = modulo_lastSeenAt d2 \<Longrightarrow>
        modulo_lastSeenAt (snd (post_entities_handler w rq l k d1))
          = modulo_lastSeenAt (snd (post_entities_handler w rq l k d2))" for d1 d2
    by (rule post_entities_handler_forget)
qed

lemma put_entities_swallows_touch:
  "fst (put_entities cr cfg (with_touch x w) rq l k d)
     = fst (put_entities cr cfg (with_touch y w) rq l k d)
   \<and> modulo_lastSeenAt (snd (put_entities cr cfg (with_touch x w) rq l k d))
     = modulo_lastSeenAt (snd (put_entities cr cfg (with_touch y w) rq l k d))"
  unfolding put_entities_def
proof (rule guarded_swallows_touch [where H = "\<lambda>w. put_entities_handler w rq l k"])
  show "put_entities_handler (with_touch z w) rq l k d' = put_entities_handler w rq l k d'"
    for z d'
    by (rule put_entities_handler_world) (simp_all add: with_touch_def)
  show "fst (put_entities_handler w rq l k (d'\<lparr>sessions := ss\<rparr>))
          = fst (put_entities_handler w rq l k d')" for d' ss
    by (simp add: put_entities_handler_sessions)
  show "modulo_lastSeenAt d1 = modulo_lastSeenAt d2 \<Longrightarrow>
        modulo_lastSeenAt (snd (put_entities_handler w rq l k d1))
          = modulo_lastSeenAt (snd (put_entities_handler w rq l k d2))" for d1 d2
    by (rule put_entities_handler_forget)
qed

subsection \<open>Introspection\<close>

lemma get_admin_me_eq:
  "get_admin_me cr cfg w rq d =
     json 200 (AuthenticatedBody
       (fails w ConnectToMongo = None \<and> fails w SessionsFindOne = None
        \<and> (\<exists>t. admin_session rq = Some (JStr t) \<and> t \<noteq> []
              \<and> (\<exists>s\<in>set (sessions d).
                    sessionTokenHash s = hmac_sha256_hex cr (SESSION_PEPPER cfg) t
                    \<and> revokedAt s = None))))"
proof (cases "admin_session rq")
  case None
  then show ?thesis by (simp add: get_admin_me_def io_defs)
next
  case (Some v)
  then show ?thesis
    by (cases v)
      (auto simp: get_admin_me_def io_defs sessionTokenToHash_def find_ex
        dest: find_SomeD split: option.splits)
qed

text \<open>
  C5. \<^verbatim>\<open>GET /admin/me\<close> answers every request with status 200, no cookie and a body
  \<^verbatim>\<open>{authenticated: b}\<close>. The body is \<^verbatim>\<open>{authenticated: false}\<close> when the cookie
  is missing, when it is falsy or not a string (a malformed cookie), when no session holds
  the digest of the token, when every session that holds it is revoked, and when the
  connection or the lookup fails.
\<close>

theorem get_admin_me_never_errors:
  "status (get_admin_me cr cfg w rq d) = 200
   \<and> cookie (get_admin_me cr cfg w rq d) = NoCookie
   \<and> (\<exists>b. body (get_admin_me cr cfg w rq d) = AuthenticatedBody b)
   \<and> (admin_session rq = None \<longrightarrow>
        body (get_admin_me cr cfg w rq d) = AuthenticatedBody False)
   \<and> (\<not> truthy (admin_session rq) \<longrightarrow>
        body (get_admin_me cr cfg w rq d) = AuthenticatedBody False)
   \<and> ((\<forall>t. admin_session rq \<noteq> Some (JStr t)) \<longrightarrow>
        body (get_admin_me cr cfg w rq d) = AuthenticatedBody False)
   \<and> ((\<forall>s\<in>set (sessions d).
          sessionTokenToHash cr cfg (admin_session rq) \<noteq> Inr (sessionTokenHash s)) \<longrightarrow>
        body (get_admin_me cr cfg w rq d) = AuthenticatedBody False)
   \<and> ((\<forall>s\<in>set (sessions d).
          sessionTokenToHash cr cfg (admin_session rq) = Inr (sessionTokenHash s) \<longrightarrow>
          revokedAt s \<noteq> None) \<longrightarrow>
        body (get_admin_me cr cfg w rq d) = AuthenticatedBody False)
   \<and> (fails w ConnectToMongo \<noteq> None \<or> fails w SessionsFindOne \<noteq> None \<longrightarrow>
        body (get_admin_me cr cfg w rq d) = AuthenticatedBody False)"
proof -
  have "\<not> truthy (admin_session rq) \<Longrightarrow> admin_session rq = Some (JStr t) \<Longrightarrow> t = []" for t
    by auto
  then show ?thesis
    unfolding get_admin_me_eq by (auto simp: json_def sessionTokenToHash_def)
qed

theorem get_admin_me_never_errors_witness:
  "get_admin_me test_crypto test_config calm (with_cookie (JStr token0)) db1
     = json 200 (AuthenticatedBody True)
   \<and> body (get_admin_me test_crypto test_config calm (with_body []) db1)
     = AuthenticatedBody False
   \<and> body (get_admin_me test_crypto test_config calm (with_cookie (JNum 5)) db1)
     = AuthenticatedBody False
   \<and> body (get_admin_me test_crypto test_config calm (with_cookie (JStr ''unknown'')) db1)
     = AuthenticatedBody False
   \<and> body (get_admin_me test_crypto test_config calm (with_cookie (JStr token0))
             (db1\<lparr>sessions := [session0\<lparr>revokedAt := Some 1500\<rparr>]\<rparr>))
     = AuthenticatedBody False
   \<and> body (get_admin_me test_crypto test_config
             (calm\<lparr>fails := no_faults(SessionsFindOne := Some boom)\<rparr>)
             (with_cookie (JStr token0)) db1)
     = AuthenticatedBody False"
proof -
  have ok: "get_admin_me test_crypto test_config calm (with_cookie (JStr token0)) db1
     = json 200 (AuthenticatedBody True)"
    by (simp add: get_admin_me_eq calm_def no_faults_def with_cookie_def db1_def session0_def
        test_crypto_def test_config_def token0_def)
  have missing: "admin_session (with_body []) = None"
    by (simp add: with_body_def)
  have malformed: "\<forall>t. admin_session (with_cookie (JNum 5)) \<noteq> Some (JStr t)"
    by (simp add: with_cookie_def)
  have unknown: "\<forall>s\<in>set (sessions db1).
      sessionTokenToHash test_crypto test_config (admin_session (with_cookie (JStr ''unknown'')))
        \<noteq> Inr (sessionTokenHash s)"
    by (simp add: with_cookie_def db1_def session0_def sessionTokenToHash_def test_crypto_def
        test_config_def token0_def)
  have revoked: "\<forall>s\<in>set (sessions (db1\<lparr>sessions := [session0\<lparr>revokedAt := Some 1500\<rparr>]\<rparr>)).
      sessionTokenToHash test_crypto test_config (admin_session (with_cookie (JStr token0)))
        = Inr (sessionTokenHash s) \<longrightarrow> revokedAt s \<noteq> None"
    by simp
  have store_down: "fails (calm\<lparr>fails := no_faults(SessionsFindOne := Some boom)\<rparr>) ConnectToMongo \<noteq> None
      \<or> fails (calm\<lparr>fails := no_faults(SessionsFindOne := Some boom)\<rparr>) SessionsFindOne \<noteq> None"
    by simp
  have c4: "body (get_admin_me test_crypto test_config calm (with_body []) db1)
     = AuthenticatedBody False"
    by (rule get_admin_me_never_errors [THEN conjunct2, THEN conjunct2, THEN conjunct2, THEN conjunct1, THEN mp]) (rule missing)
  have c6: "body (get_admin_me test_crypto test_config calm (with_cookie (JNum 5)) db1)
     = AuthenticatedBody False"
    by (rule get_admin_me_never_errors [THEN conjunct2, THEN conjunct2, THEN conjunct2, THEN conjunct2, THEN conjunct2, THEN conjunct1, THEN mp]) (rule malformed)
  have c7: "body (get_admin_me test_crypto test_config calm (with_cookie (JStr ''unknown'')) db1)
     = AuthenticatedBody False"
    by (rule get_admin_me_never_errors [THEN conjunct2, THEN conjunct2, THEN conjunct2, THEN conjunct2, THEN conjunct2, THEN conjunct2, THEN conjunct1, THEN mp]) (rule unknown)
  have c8: "body (get_admin_me test_crypto test_config calm (with_cookie (JStr token0))
             (db1\<lparr>sessions := [session0\<lparr>revokedAt := Some 1500\<rparr>]\<rparr>))
     = AuthenticatedBody False"
    by (rule get_admin_me_never_errors [THEN conjunct2, THEN conjunct2, THEN conjunct2, THEN conjunct2, THEN conjunct2, THEN conjunct2, THEN conjunct2, THEN conjunct1, THEN mp]) (rule revoked)
  have c9: "body (get_admin_me test_crypto test_config
             (calm\<lparr>fails := no_faults(SessionsFindOne := Some boom)\<rparr>)
             (with_cookie (JStr token0)) db1)
     = AuthenticatedBody False"
    by (rule get_admin_me_never_errors [THEN conjunct2, THEN conjunct2, THEN conjunct2, THEN conjunct2, THEN conjunct2, THEN conjunct2, THEN conjunct2, THEN conjunct2, THEN mp]) (rule store_down)
  show ?thesis
    using ok c4 c6 c7 c8 c9 by (intro conjI)
qed

subsection \<open>The update of lastSeenAt\<close>

text \<open>
  C7. Whether the update of \<^verbatim>\<open>lastSeenAt\<close> fails (with any error \<open>e\<close>) or
  succeeds makes no difference to what \<^verbatim>\<open>requireAdminSession\<close> decides (the response
  it sends, or the \<^verbatim>\<open>req.admin\<close> it passes on), nor to the response of any of the three
  routes behind it; the databases after the request differ at most in
  \<^verbatim>\<open>lastSeenAt\<close>.
\<close>

theorem lastSeenAt_failure_swallowed:
  "fst (requireAdminSession cr cfg (with_touch (Some e) w) rq d)
     = fst (requireAdminSession cr cfg (with_touch None w) rq d)
   \<and> modulo_lastSeenAt (snd (requireAdminSession cr cfg (with_touch (Some e) w) rq d))
     = modulo_lastSeenAt (snd (requireAdminSession cr cfg (with_touch None w) rq d))
   \<and> fst (post_admin_logout cr cfg (with_touch (Some e) w) rq d)
     = fst (post_admin_logout cr cfg (with_touch None w) rq d)
   \<and> modulo_lastSeenAt (snd (post_admin_logout cr cfg (with_touch (Some e) w) rq d))
     = modulo_lastSeenAt (snd (post_admin_logout cr cfg (with_touch None w) rq d))
   \<and> fst (post_entities cr cfg (with_touch (Some e) w) rq l k d)
     = fst (post_entities cr cfg (with_touch None w) rq l k d)
   \<and> modulo_lastSeenAt (snd (post_entities cr cfg (with_touch (Some e) w) rq l k d))
     = modulo_lastSeenAt (snd (post_entities cr cfg (with_touch None w) rq l k d))
   \<and> fst (put_entities cr cfg (with_touch (Some e) w) rq l k d)
     = fst (put_entities cr cfg (with_touch None w) rq l k d)
   \<and> modulo_lastSeenAt (snd (put_entities cr cfg (with_touch (Some e) w) rq l k d))
     = modulo_lastSeenAt (snd (put_entities cr cfg (with_touch None w) rq l k d))"
  using requireAdminSession_with_touch [of cr cfg "Some e" w rq d None]
    logout_swallows_touch [of cr cfg "Some e" w rq d None]
    post_entities_swallows_touch [of cr cfg "Some e" w rq l k d None]
    put_entities_swallows_touch [of cr cfg "Some e" w rq l k d None]
  by blast

theorem lastSeenAt_failure_swallowed_witness:
  "fst (requireAdminSession test_crypto test_config (with_touch (Some boom) later)
          entity_request db1) = Inr (Admin 7 1)
   \<and> fst (post_entities test_crypto test_config (with_touch (Some boom) later)
            entity_request ''x'' ''c'' db1)
       = json 201 (DocBody [(''list'', JStr ''x''), (''key'', JStr ''c''),
                            (''name'', JStr ''N''), (''updatedAt'', JDate 2000),
                            (''createdAt'', JDate 2000)])"
proof -
  have a: "fst (requireAdminSession test_crypto test_config (with_touch None later)
          entity_request db1) = Inr (Admin 7 1)"
    by (simp add: requireAdminSession_def touch_lastSeenAt_def io_defs Let_def with_touch_def
        later_def entity_request_def sessionTokenToHash_def test_crypto_def test_config_def
        db0_def db1_def session0_def no_faults_def token0_def)
  have b: "fst (post_entities test_crypto test_config (with_touch None later)
            entity_request ''x'' ''c'' db1)
       = json 201 (DocBody [(''list'', JStr ''x''), (''key'', JStr ''c''),
                            (''name'', JStr ''N''), (''updatedAt'', JDate 2000),
                            (''createdAt'', JDate 2000)])"
    by (simp add: post_entities_def guarded_def requireAdminSession_def
        post_entities_handler_def entities_insertOne_def post_payload_def touch_lastSeenAt_def
        fresh_oid_def same_entity_def io_defs Let_def with_touch_def later_def
        entity_request_def sessionTokenToHash_def test_crypto_def test_config_def body_doc_def
        db0_def db1_def session0_def admin_account_def no_faults_def entity_a_def entity_b_def
        page_x_def stripMongoId_def token0_def)
  show ?thesis
    using a b
      lastSeenAt_failure_swallowed [of test_crypto test_config boom later entity_request db1
        "''x''" "''c''"]
    by simp
qed

subsection \<open>The session collection over time\<close>

lemma find_append:
  "find P (xs @ ys) = (case find P xs of Some x \<Rightarrow> Some x | None \<Rightarrow> find P ys)"
  by (induction xs) auto

lemma find_updateOne_inv:
  "(\<And>x. P (g x) = P x) \<Longrightarrow> (\<And>x. h (g x) = h x) \<Longrightarrow>
     map_option h (find P (updateOne p g xs)) = map_option h (find P xs)"
  by (induction xs) auto

lemma find_updateOne_other:
  "(\<And>x. p x \<Longrightarrow> \<not> P x \<and> \<not> P (g x)) \<Longrightarrow> find P (updateOne p g xs) = find P xs"
  by (induction xs) auto

lemma find_revoked_None:
  "distinct (map sessionTokenHash ss) \<Longrightarrow>
     find (active_with h)
       (updateOne (\<lambda>x. sessionTokenHash x = h) (\<lambda>x. x\<lparr>revokedAt := Some n\<rparr>) ss) = None"
proof (induction ss)
  case Nil
  then show ?case by simp
next
  case (Cons x xs)
  show ?case
  proof (cases "sessionTokenHash x = h")
    case True
    with Cons.prems have "h \<notin> sessionTokenHash ` set xs" by auto
    then have "\<forall>y\<in>set xs. sessionTokenHash y \<noteq> h" by blast
    then have "find (active_with h) xs = None"
      by (auto simp: find_None_iff active_with_def)
    with True show ?thesis by (simp add: active_with_def [abs_def])
  next
    case False
    with Cons show ?thesis by (simp add: active_with_def)
  qed
qed

lemma find_unique_revoked:
  assumes "distinct (map sessionTokenHash ss)" "s \<in> set ss" "sessionTokenHash s = h"
    "revokedAt s \<noteq> None"
  shows "find (active_with h) ss = None"
proof -
  have "x = s" if "x \<in> set ss" "sessionTokenHash x = h" for x
    using assms(1,2,3) that by (meson distinct_map inj_onD)
  with assms(4) show ?thesis
    by (auto simp: find_None_iff active_with_def)
qed

lemma evolve1_hashes:
  "evolve1 R ss ss' \<Longrightarrow> \<exists>n. map sessionTokenHash ss' = map sessionTokenHash ss @ n
      \<and> (distinct (map sessionTokenHash ss) \<longrightarrow> distinct (map sessionTokenHash ss'))"
  by (induction rule: evolve1.induct) (auto simp: map_updateOne)

lemma evolve1_distinct:
  "evolve1 R ss ss' \<Longrightarrow> distinct (map sessionTokenHash ss) \<Longrightarrow>
     distinct (map sessionTokenHash ss')"
  using evolve1_hashes by blast

lemma updateOne_nth:
  "i < length xs \<Longrightarrow> updateOne p g xs ! i = xs ! i \<or> updateOne p g xs ! i = g (xs ! i)"
proof (induction xs arbitrary: i)
  case Nil
  then show ?case by simp
next
  case (Cons x xs)
  then show ?case by (cases i) auto
qed

lemma never_unrevoked_refl: "never_unrevoked ss ss"
  by (simp add: never_unrevoked_def keeps_def)

lemma never_unrevoked_trans:
  "never_unrevoked a b \<Longrightarrow> never_unrevoked b c \<Longrightarrow> never_unrevoked a c"
  by (auto simp: never_unrevoked_def keeps_def)

lemma keeps_refl: "keeps s s"
  by (simp add: keeps_def)

lemma updateOne_never_unrevoked:
  assumes "\<And>x. keeps x (g x)"
  shows "never_unrevoked ss (updateOne p g ss)"
  unfolding never_unrevoked_def
proof (intro conjI allI impI)
  show "length ss \<le> length (updateOne p g ss)" by (simp add: length_updateOne)
next
  fix i assume "i < length ss"
  from updateOne_nth [OF this, of p g]
  show "keeps (ss ! i) (updateOne p g ss ! i)"
    by (elim disjE) (simp_all add: keeps_refl assms)
qed

lemma evolve1_never_unrevoked: "evolve1 R ss ss' \<Longrightarrow> never_unrevoked ss ss'"
proof (induction rule: evolve1.induct)
  case (touch ss i n)
  show ?case by (rule updateOne_never_unrevoked) (simp add: keeps_def)
next
  case (insert s ss)
  then show ?case by (auto simp: never_unrevoked_def keeps_def nth_append)
next
  case (revoke h ss n)
  show ?case by (rule updateOne_never_unrevoked) (simp add: keeps_def)
qed

lemma evolve1_keeps_active:
  assumes "evolve1 R ss ss'" "\<not> R h"
    "map_option (\<lambda>s. Admin (accountId s) (sess_id s)) (find (active_with h) ss) = Some a"
  shows "map_option (\<lambda>s. Admin (accountId s) (sess_id s)) (find (active_with h) ss') = Some a"
  using assms
proof (induction rule: evolve1.induct)
  case (touch ss i n)
  then show ?case
    by (simp add: find_updateOne_inv [where h = "\<lambda>s. Admin (accountId s) (sess_id s)"]
        active_with_def)
next
  case (insert s ss)
  then show ?case by (auto simp: find_append split: option.splits)
next
  case (revoke h' ss n)
  then have "h' \<noteq> h" by auto
  then have "find (active_with h) (updateOne (\<lambda>x. sessionTokenHash x = h')
                (\<lambda>x. x\<lparr>revokedAt := Some n\<rparr>) ss) = find (active_with h) ss"
    by (intro find_updateOne_other) (auto simp: active_with_def)
  with revoke show ?case by simp
qed

lemma evolve1_keeps_revoked:
  assumes "evolve1 R ss ss'" "\<exists>s\<in>set ss. sessionTokenHash s = h \<and> revokedAt s \<noteq> None"
  shows "\<exists>s\<in>set ss'. sessionTokenHash s = h \<and> revokedAt s \<noteq> None"
proof -
  from assms(2) obtain i where i: "i < length ss" "sessionTokenHash (ss ! i) = h"
    "revokedAt (ss ! i) \<noteq> None"
    by (auto simp: in_set_conv_nth)
  from evolve1_never_unrevoked [OF assms(1)] i
  have "i < length ss'" "sessionTokenHash (ss' ! i) = h" "revokedAt (ss' ! i) \<noteq> None"
    by (auto simp: never_unrevoked_def keeps_def)
  then show ?thesis by (metis nth_mem)
qed

lemma base64url_nonempty: "bs \<noteq> [] \<Longrightarrow> base64url bs \<noteq> []"
  by (cases bs rule: base64url.cases) simp_all

lemma makeSessionToken_nonempty: "makeSessionToken rnd \<noteq> []"
  by (rule base64url_nonempty [of "randomBytes rnd 32", folded makeSessionToken_def])
    (simp add: randomBytes_def)

lemma requireAdminSession_evolves:
  "sessions (snd (requireAdminSession cr cfg w rq d)) = sessions d
   \<or> evolve1 R (sessions d) (sessions (snd (requireAdminSession cr cfg w rq d)))"
  by (auto simp: requireAdminSession_def touch_lastSeenAt_def io_defs Let_def
      intro: evolve1.touch split: option.splits sum.splits)

lemma requireAdminSession_frame:
  "accounts (snd (requireAdminSession cr cfg w rq d)) = accounts d
   \<and> entities (snd (requireAdminSession cr cfg w rq d)) = entities d
   \<and> pages (snd (requireAdminSession cr cfg w rq d)) = pages d"
  by (auto simp: requireAdminSession_def touch_lastSeenAt_def io_defs Let_def
      split: option.splits sum.splits)

lemma requireAdminSession_Inl_same:
  "requireAdminSession cr cfg w rq d = (Inl r, d') \<Longrightarrow> d' = d"
  by (auto simp: requireAdminSession_def io_defs Let_def split: option.splits sum.splits if_splits)

lemma requireAdminSession_Inr:
  assumes "requireAdminSession cr cfg w rq d = (Inr a, d')"
  shows "\<exists>t s. admin_session rq = Some (JStr t) \<and> t \<noteq> []
       \<and> fails w ConnectToMongo = None \<and> fails w SessionsFindOne = None
       \<and> find (\<lambda>s. sessionTokenHash s = hmac_sha256_hex cr (SESSION_PEPPER cfg) t
                    \<and> revokedAt s = None) (sessions d) = Some s
       \<and> a = Admin (accountId s) (sess_id s) \<and> d' = touch_lastSeenAt w s d"
proof (cases "admin_session rq")
  case None
  with assms show ?thesis
    by (simp add: requireAdminSession_def io_defs)
next
  case (Some v)
  with assms show ?thesis
    by (cases v)
      (auto simp: requireAdminSession_def io_defs Let_def sessionTokenToHash_def
        split: option.splits sum.splits if_splits)
qed

lemma requireAdminSession_found:
  assumes "admin_session rq = Some (JStr t)" "t \<noteq> []"
    "fails w ConnectToMongo = None" "fails w SessionsFindOne = None"
  shows "requireAdminSession cr cfg w rq d =
     (case find (\<lambda>s. sessionTokenHash s = hmac_sha256_hex cr (SESSION_PEPPER cfg) t
                    \<and> revokedAt s = None) (sessions d) of
        None \<Rightarrow> (Inl (json 401 (ErrorBody ''unauthorized'' ''Invalid or revoked session'')), d)
      | Some s \<Rightarrow> (Inr (Admin (accountId s) (sess_id s)), touch_lastSeenAt w s d))"
  using assms
  by (simp add: requireAdminSession_def io_defs sessionTokenToHash_def split: option.splits)

lemma requireAdminSession_never_Inr:
  assumes "admin_session rq = Some (JStr t)"
    "find (\<lambda>s. sessionTokenHash s = hmac_sha256_hex cr (SESSION_PEPPER cfg) t
                    \<and> revokedAt s = None) (sessions d) = None"
  shows "fst (requireAdminSession cr cfg w rq d) \<noteq> Inr a"
  using assms
  by (auto simp: requireAdminSession_def io_defs sessionTokenToHash_def Let_def
      split: option.splits sum.splits)

lemma login_unfold:
  assumes "truthy (map_of (body_doc rq) ''username'')" "truthy (map_of (body_doc rq) ''password'')"
    "fails w ConnectToMongo = None" "fails w AccountsFindOne = None"
  shows "post_admin_login cr cfg w rq d =
     (case find (\<lambda>a. map_of (body_doc rq) ''username'' = Some (JStr (username a))
                     \<and> disabled a = False) (accounts d) of
        None \<Rightarrow> (json 401 (ErrorBody ''unauthorized'' ''Invalid credentials''), d)
      | Some acct \<Rightarrow>
          (case argon2_verify cr (passwordHash acct) (map_of (body_doc rq) ''password'') of
             Inl err \<Rightarrow> (json 500 (ErrorBody ''internal_error'' (cleanError err)), d)
           | Inr False \<Rightarrow> (json 401 (ErrorBody ''unauthorized'' ''Invalid credentials''), d)
           | Inr True \<Rightarrow>
               (case fails w SessionsInsertOne of
                  Some err \<Rightarrow> (json 500 (ErrorBody ''internal_error'' (cleanError err)), d)
                | None \<Rightarrow>
                    if sessionTokenHash (login_session cr cfg w rq acct d)
                         \<in> set (map sessionTokenHash (sessions d))
                    then (json 500 (ErrorBody ''internal_error'' (cleanError duplicate_key)), d)
                    else (\<lparr>status = 200, body = OkBody,
                           cookie = SetCookie ''admin_session'' (makeSessionToken (entropy w))
                                      (adminCookieOptions cfg)\<rparr>,
                          d\<lparr>sessions := sessions d @ [login_session cr cfg w rq acct d]\<rparr>))))"
  using assms
  by (simp add: post_admin_login_def io_defs Let_def sessionTokenToHash_def
      sessions_insertOne_def login_session_def split: option.splits sum.splits bool.splits)

lemma login_not_200_same:
  assumes "post_admin_login cr cfg w rq d = (r, d')" "status r \<noteq> 200"
  shows "d' = d"
  using assms
  by (auto simp: post_admin_login_def io_defs Let_def sessionTokenToHash_def
      sessions_insertOne_def split: option.splits sum.splits if_splits)

lemma login_200:
  assumes "post_admin_login cr cfg w rq d = (r, d')" "status r = 200"
  shows "\<exists>acct. truthy (map_of (body_doc rq) ''username'')
      \<and> truthy (map_of (body_doc rq) ''password'')
      \<and> find (\<lambda>a. map_of (body_doc rq) ''username'' = Some (JStr (username a))
                     \<and> disabled a = False) (accounts d) = Some acct
      \<and> argon2_verify cr (passwordHash acct) (map_of (body_doc rq) ''password'') = Inr True
      \<and> sessionTokenHash (login_session cr cfg w rq acct d) \<notin> set (map sessionTokenHash (sessions d))
      \<and> r = \<lparr>status = 200, body = OkBody,
              cookie = SetCookie ''admin_session'' (makeSessionToken (entropy w))
                         (adminCookieOptions cfg)\<rparr>
      \<and> d' = d\<lparr>sessions := sessions d @ [login_session cr cfg w rq acct d]\<rparr>"
  using assms
  by (auto simp: post_admin_login_def io_defs Let_def sessionTokenToHash_def
      sessions_insertOne_def login_session_def split: option.splits sum.splits if_splits)

lemma evolve1_mono: "evolve1 R ss ss' \<Longrightarrow> (\<And>h. R h \<Longrightarrow> R' h) \<Longrightarrow> evolve1 R' ss ss'"
  by (induction rule: evolve1.induct) (auto intro: evolve1.intros)

lemma evolves_mono:
  assumes "(evolve1 R)\<^sup>*\<^sup>* ss ss'" "\<And>h. R h \<Longrightarrow> R' h"
  shows "(evolve1 R')\<^sup>*\<^sup>* ss ss'"
  using assms(1)
proof (induction rule: rtranclp_induct)
  case base
  then show ?case by simp
next
  case (step y z)
  have "evolve1 R' y z" by (rule evolve1_mono [OF step.hyps(2)]) (rule assms(2))
  with step.IH show ?case by auto
qed

lemma evolves_distinct:
  "(evolve1 R)\<^sup>*\<^sup>* ss ss' \<Longrightarrow> distinct (map sessionTokenHash ss) \<Longrightarrow>
     distinct (map sessionTokenHash ss')"
  by (induction rule: rtranclp_induct) (auto dest: evolve1_distinct)

lemma evolves_never_unrevoked: "(evolve1 R)\<^sup>*\<^sup>* ss ss' \<Longrightarrow> never_unrevoked ss ss'"
  by (induction rule: rtranclp_induct)
    (auto intro: never_unrevoked_refl never_unrevoked_trans dest: evolve1_never_unrevoked)

lemma evolves_keeps_active:
  "(evolve1 R)\<^sup>*\<^sup>* ss ss' \<Longrightarrow> \<not> R h \<Longrightarrow>
     map_option (\<lambda>s. Admin (accountId s) (sess_id s)) (find (active_with h) ss) = Some a \<Longrightarrow>
     map_option (\<lambda>s. Admin (accountId s) (sess_id s)) (find (active_with h) ss') = Some a"
  by (induction rule: rtranclp_induct) (auto dest: evolve1_keeps_active)

lemma evolves_keeps_revoked:
  "(evolve1 R)\<^sup>*\<^sup>* ss ss' \<Longrightarrow>
     \<exists>s\<in>set ss. sessionTokenHash s = h \<and> revokedAt s \<noteq> None \<Longrightarrow>
     \<exists>s\<in>set ss'. sessionTokenHash s = h \<and> revokedAt s \<noteq> None"
  by (induction rule: rtranclp_induct) (auto dest: evolve1_keeps_revoked)

lemma touch_evolves: "(evolve1 R)\<^sup>*\<^sup>* (sessions d) (sessions (touch_lastSeenAt w s d))"
  by (auto simp: touch_lastSeenAt_def intro: evolve1.touch split: option.splits)

lemma login_evolves:
  "(evolve1 R)\<^sup>*\<^sup>* (sessions d) (sessions (snd (post_admin_login cr cfg w rq d)))"
proof (cases "post_admin_login cr cfg w rq d")
  case (Pair r d')
  show ?thesis
  proof (cases "status r = 200")
    case True
    from login_200 [OF Pair True] obtain acct where
      "sessionTokenHash (login_session cr cfg w rq acct d) \<notin> set (map sessionTokenHash (sessions d))"
      "d' = d\<lparr>sessions := sessions d @ [login_session cr cfg w rq acct d]\<rparr>"
      by blast
    then have "evolve1 R (sessions d) (sessions d')"
      by (auto intro!: evolve1.insert simp: login_session_def)
    with Pair show ?thesis by auto
  next
    case False
    from login_not_200_same [OF Pair False] Pair show ?thesis by simp
  qed
qed

lemma logout_handler_evolves:
  "(evolve1 (\<lambda>h. sessionTokenToHash cr cfg (admin_session rq) = Inr h))\<^sup>*\<^sup>*
     (sessions d) (sessions (snd (logout_handler cr cfg w rq d)))"
  by (auto simp: logout_handler_def io_defs intro!: r_into_rtranclp evolve1.revoke
      split: option.splits sum.splits)

lemma guarded_evolves:
  assumes "\<And>d'. (evolve1 R)\<^sup>*\<^sup>* (sessions d') (sessions (snd (H d')))"
  shows "(evolve1 R)\<^sup>*\<^sup>* (sessions d) (sessions (snd (guarded cr cfg w rq d H)))"
proof (cases "requireAdminSession cr cfg w rq d")
  case (Pair out d')
  show ?thesis
  proof (cases out)
    case (Inl r)
    with Pair requireAdminSession_Inl_same [of cr cfg w rq d r d'] show ?thesis
      by (simp add: guarded_def)
  next
    case (Inr a)
    with Pair requireAdminSession_Inr [of cr cfg w rq d a d'] obtain s where
      "d' = touch_lastSeenAt w s d" by blast
    then have "(evolve1 R)\<^sup>*\<^sup>* (sessions d) (sessions d')" by (simp add: touch_evolves)
    with assms [of d'] Pair Inr show ?thesis by (simp add: guarded_def)
  qed
qed

lemma same_evolves: "sessions d' = sessions d \<Longrightarrow> (evolve1 R)\<^sup>*\<^sup>* (sessions d) (sessions d')"
  by simp

lemma handle_evolves:
  "(evolve1 (revokes cr cfg rt rq))\<^sup>*\<^sup>* (sessions d) (sessions (snd (handle cr cfg rt w rq d)))"
proof (cases rt)
  case PostAdminLogin
  then show ?thesis by (simp add: handle_def login_evolves)
next
  case PostAdminLogout
  have "(evolve1 (revokes cr cfg rt rq))\<^sup>*\<^sup>* (sessions d')
          (sessions (snd (logout_handler cr cfg w rq d')))" for d'
    by (rule evolves_mono [OF logout_handler_evolves]) (simp add: revokes_def PostAdminLogout)
  from guarded_evolves [of "revokes cr cfg rt rq" "logout_handler cr cfg w rq", OF this]
  show ?thesis using PostAdminLogout by (simp add: handle_def post_admin_logout_def)
next
  case (PostEntities l k)
  have "(evolve1 (revokes cr cfg rt rq))\<^sup>*\<^sup>* (sessions d')
          (sessions (snd (post_entities_handler w rq l k d')))" for d'
    by (simp add: post_entities_handler_keeps_sessions)
  from guarded_evolves [of "revokes cr cfg rt rq" "post_entities_handler w rq l k", OF this]
  show ?thesis using PostEntities by (simp add: handle_def post_entities_def)
next
  case (PutEntities l k)
  have "(evolve1 (revokes cr cfg rt rq))\<^sup>*\<^sup>* (sessions d')
          (sessions (snd (put_entities_handler w rq l k d')))" for d'
    by (simp add: put_entities_handler_keeps_sessions)
  from guarded_evolves [of "revokes cr cfg rt rq" "put_entities_handler w rq l k", OF this]
  show ?thesis using PutEntities by (simp add: handle_def put_entities_def)
qed (simp_all add: handle_def)

lemma run_evolves:
  "(evolve1 (\<lambda>h. \<exists>(rt, w, rq)\<in>set evs. revokes cr cfg rt rq h))\<^sup>*\<^sup>*
     (sessions d) (sessions (run cr cfg evs d))"
proof (induction evs arbitrary: d)
  case Nil
  then show ?case by simp
next
  case (Cons ev evs)
  obtain rt w rq where ev: "ev = (rt, w, rq)" by (cases ev)
  let ?R = "\<lambda>h. \<exists>(rt, w, rq)\<in>set (ev # evs). revokes cr cfg rt rq h"
  have a: "(evolve1 ?R)\<^sup>*\<^sup>* (sessions d) (sessions (snd (handle cr cfg rt w rq d)))"
    by (rule evolves_mono [OF handle_evolves]) (auto simp: ev)
  have b: "(evolve1 ?R)\<^sup>*\<^sup>* (sessions (snd (handle cr cfg rt w rq d)))
             (sessions (run cr cfg evs (snd (handle cr cfg rt w rq d))))"
    by (rule evolves_mono [OF Cons.IH]) auto
  from a b show ?case by (simp add: ev)
qed

lemmas active_abs = active_with_def [abs_def]

lemma find_fresh_append:
  assumes "h \<notin> set (map sessionTokenHash ss)"
  shows "find (\<lambda>s. sessionTokenHash s = h \<and> revokedAt s = None) (ss @ [s])
           = (if sessionTokenHash s = h \<and> revokedAt s = None then Some s else None)"
proof -
  have "find (\<lambda>s. sessionTokenHash s = h \<and> revokedAt s = None) ss = None"
    using assms by (auto simp: find_None_iff)
  then show ?thesis by (simp add: find_append)
qed

lemma find_account:
  assumes "distinct (map username as)" "a \<in> set as" "username a = u" "\<not> disabled a"
  shows "find (\<lambda>x. Some (JStr u) = Some (JStr (username x)) \<and> disabled x = False) as = Some a"
  using assms
proof (induction as)
  case Nil
  then show ?case by simp
next
  case (Cons x xs)
  then show ?case by (cases "x = a") (auto simp: image_iff)
qed

lemma updateOne_hits:
  "\<exists>x\<in>set xs. p x \<Longrightarrow> \<exists>y\<in>set xs. p y \<and> g y \<in> set (updateOne p g xs)"
  by (induction xs) auto

lemma requireAdminSession_Inl_status:
  "requireAdminSession cr cfg w rq d = (Inl r, d') \<Longrightarrow> status r = 401 \<or> status r = 500"
  by (auto simp: requireAdminSession_def io_defs Let_def split: option.splits sum.splits if_splits)

lemma logout_200:
  assumes "post_admin_logout cr cfg w rq d = (r, d1)" "status r = 200"
  shows "\<exists>t s. admin_session rq = Some (JStr t) \<and> t \<noteq> []
      \<and> find (\<lambda>s. sessionTokenHash s = hmac_sha256_hex cr (SESSION_PEPPER cfg) t
                   \<and> revokedAt s = None) (sessions d) = Some s
      \<and> r = \<lparr>status = 200, body = OkBody, cookie = ClearCookie ''admin_session'' ''/''\<rparr>
      \<and> d1 = (touch_lastSeenAt w s d)\<lparr>sessions :=
                updateOne (\<lambda>x. sessionTokenHash x = hmac_sha256_hex cr (SESSION_PEPPER cfg) t)
                  (\<lambda>x. x\<lparr>revokedAt := Some (now w)\<rparr>) (sessions (touch_lastSeenAt w s d))\<rparr>"
proof (cases "requireAdminSession cr cfg w rq d")
  case (Pair out d')
  show ?thesis
  proof (cases out)
    case (Inl r')
    with Pair assms requireAdminSession_Inl_status [of cr cfg w rq d r' d'] show ?thesis
      by (auto simp: post_admin_logout_def guarded_def)
  next
    case (Inr a)
    with Pair requireAdminSession_Inr [of cr cfg w rq d a d'] obtain t s where
      ts: "admin_session rq = Some (JStr t)" "t \<noteq> []"
        "find (\<lambda>s. sessionTokenHash s = hmac_sha256_hex cr (SESSION_PEPPER cfg) t
                   \<and> revokedAt s = None) (sessions d) = Some s"
        "d' = touch_lastSeenAt w s d"
      by blast
    from assms Pair Inr have "logout_handler cr cfg w rq d' = (r, d1)"
      by (simp add: post_admin_logout_def guarded_def)
    with assms(2) ts(1) have
      "r = \<lparr>status = 200, body = OkBody, cookie = ClearCookie ''admin_session'' ''/''\<rparr>
       \<and> d1 = d'\<lparr>sessions :=
                updateOne (\<lambda>x. sessionTokenHash x = hmac_sha256_hex cr (SESSION_PEPPER cfg) t)
                  (\<lambda>x. x\<lparr>revokedAt := Some (now w)\<rparr>) (sessions d')\<rparr>"
      by (auto simp: logout_handler_def io_defs sessionTokenToHash_def
          split: option.splits sum.splits)
    with ts show ?thesis by blast
  qed
qed

lemma touch_hashes:
  "map sessionTokenHash (sessions (touch_lastSeenAt w s d)) = map sessionTokenHash (sessions d)"
  by (simp add: touch_lastSeenAt_def map_updateOne split: option.splits)

lemma touch_has_hash:
  "(\<exists>x\<in>set (sessions (touch_lastSeenAt w s d)). sessionTokenHash x = h)
     = (\<exists>x\<in>set (sessions d). sessionTokenHash x = h)"
proof -
  have e: "(\<exists>x\<in>set ss. sessionTokenHash x = h) = (h \<in> set (map sessionTokenHash ss))" for ss
    by auto
  show ?thesis unfolding e touch_hashes by (rule refl)
qed

lemma logout_leaves_revoked:
  assumes "distinct (map sessionTokenHash (sessions d))"
    "post_admin_logout cr cfg w rq d = (r, d1)" "status r = 200"
  shows "\<exists>t. admin_session rq = Some (JStr t)
      \<and> distinct (map sessionTokenHash (sessions d1))
      \<and> (\<exists>s\<in>set (sessions d1). sessionTokenHash s = hmac_sha256_hex cr (SESSION_PEPPER cfg) t
             \<and> revokedAt s \<noteq> None)"
proof -
  from logout_200 [OF assms(2,3)] obtain t s where
    ts: "admin_session rq = Some (JStr t)"
      "find (\<lambda>s. sessionTokenHash s = hmac_sha256_hex cr (SESSION_PEPPER cfg) t
                   \<and> revokedAt s = None) (sessions d) = Some s"
      "d1 = (touch_lastSeenAt w s d)\<lparr>sessions :=
                updateOne (\<lambda>x. sessionTokenHash x = hmac_sha256_hex cr (SESSION_PEPPER cfg) t)
                  (\<lambda>x. x\<lparr>revokedAt := Some (now w)\<rparr>) (sessions (touch_lastSeenAt w s d))\<rparr>"
    by blast
  let ?h = "hmac_sha256_hex cr (SESSION_PEPPER cfg) t"
  let ?ss = "sessions (touch_lastSeenAt w s d)"
  have dis: "distinct (map sessionTokenHash (sessions d1))"
    using assms(1) by (simp add: ts(3) map_updateOne touch_hashes)
  from find_SomeD [OF ts(2)] have "\<exists>x\<in>set (sessions d). sessionTokenHash x = ?h" by blast
  then have "\<exists>x\<in>set ?ss. sessionTokenHash x = ?h" by (simp add: touch_has_hash)
  from updateOne_hits [OF this, of "\<lambda>x. x\<lparr>revokedAt := Some (now w)\<rparr>"]
  obtain y where "sessionTokenHash y = ?h"
    "y\<lparr>revokedAt := Some (now w)\<rparr> \<in> set (sessions d1)"
    by (auto simp: ts(3))
  then have "\<exists>s\<in>set (sessions d1). sessionTokenHash s = ?h \<and> revokedAt s \<noteq> None"
    by (intro bexI [of _ "y\<lparr>revokedAt := Some (now w)\<rparr>"]) simp_all
  with ts(1) dis show ?thesis by blast
qed

text \<open>
  C3. Let a logout succeed on a store whose sessions have distinct hashes (the unique index
  of \<^verbatim>\<open>ensureIndexes\<close>). Then after any sequence of later requests, in any worlds,
  \<^verbatim>\<open>requireAdminSession\<close> never passes a request that presents the same cookie on to a
  handler, and answers it 401 \<^verbatim>\<open>Invalid or revoked session\<close> whenever the connection
  and the lookup succeed. And from any store, no sequence of requests removes a session or
  turns a revoked session back into an active one.
\<close>

theorem logout_revokes_for_good:
  assumes inv: "distinct (map sessionTokenHash (sessions d))"
    and out: "post_admin_logout cr cfg w rq d = (r, d1)"
    and ok: "status r = 200"
  shows "(\<forall>evs w' rq'. admin_session rq' = admin_session rq \<longrightarrow>
            (\<forall>a. fst (requireAdminSession cr cfg w' rq' (run cr cfg evs d1)) \<noteq> Inr a)
            \<and> (fails w' ConnectToMongo = None \<and> fails w' SessionsFindOne = None \<longrightarrow>
                 requireAdminSession cr cfg w' rq' (run cr cfg evs d1)
                   = (Inl (json 401 (ErrorBody ''unauthorized'' ''Invalid or revoked session'')),
                      run cr cfg evs d1)))
       \<and> (\<forall>d0 evs. never_unrevoked (sessions d0) (sessions (run cr cfg evs d0)))"
proof (intro conjI allI impI)
  fix d0 evs
  show "never_unrevoked (sessions d0) (sessions (run cr cfg evs d0))"
    by (rule evolves_never_unrevoked [OF run_evolves])
next
  from logout_leaves_revoked [OF inv out ok] obtain t where
    t: "admin_session rq = Some (JStr t)"
    and dis: "distinct (map sessionTokenHash (sessions d1))"
    and rev: "\<exists>s\<in>set (sessions d1).
        sessionTokenHash s = hmac_sha256_hex cr (SESSION_PEPPER cfg) t \<and> revokedAt s \<noteq> None"
    by blast
  from logout_200 [OF out ok] t have ne: "t \<noteq> []" by auto
  have none: "find (\<lambda>s. sessionTokenHash s = hmac_sha256_hex cr (SESSION_PEPPER cfg) t
                   \<and> revokedAt s = None) (sessions (run cr cfg evs d1)) = None" for evs
  proof -
    from evolves_distinct [OF run_evolves dis]
    have d: "distinct (map sessionTokenHash (sessions (run cr cfg evs d1)))" .
    from evolves_keeps_revoked [OF run_evolves rev] obtain s where
      "s \<in> set (sessions (run cr cfg evs d1))"
      "sessionTokenHash s = hmac_sha256_hex cr (SESSION_PEPPER cfg) t" "revokedAt s \<noteq> None"
      by blast
    from find_unique_revoked [OF d this] show ?thesis by (simp add: active_abs)
  qed
  {
    fix evs and w' :: world and rq' :: request and a
    assume c: "admin_session rq' = admin_session rq"
    show "fst (requireAdminSession cr cfg w' rq' (run cr cfg evs d1)) \<noteq> Inr a"
      by (rule requireAdminSession_never_Inr [OF _ none]) (simp add: c t)
  next
    fix evs and w' :: world and rq' :: request
    assume c: "admin_session rq' = admin_session rq"
      and up: "fails w' ConnectToMongo = None \<and> fails w' SessionsFindOne = None"
    have "admin_session rq' = Some (JStr t)" by (simp add: c t)
    from requireAdminSession_found [OF this ne, of w' cr cfg "run cr cfg evs d1"] up
    show "requireAdminSession cr cfg w' rq' (run cr cfg evs d1)
            = (Inl (json 401 (ErrorBody ''unauthorized'' ''Invalid or revoked session'')),
               run cr cfg evs d1)"
      by (simp add: none)
  }
qed

theorem logout_revokes_for_good_witness:
  "distinct (map sessionTokenHash (sessions db1))
   \<and> post_admin_logout test_crypto test_config later (with_cookie (JStr token0)) db1
       = (\<lparr>status = 200, body = OkBody, cookie = ClearCookie ''admin_session'' ''/''\<rparr>, db2)
   \<and> requireAdminSession test_crypto test_config calm (with_cookie (JStr token0))
         (run test_crypto test_config
            [(PostAdminLogin, later, login_request),
             (GetAdminMe, calm, with_cookie (JStr token0))] db2)
       = (Inl (json 401 (ErrorBody ''unauthorized'' ''Invalid or revoked session'')),
          run test_crypto test_config
            [(PostAdminLogin, later, login_request),
             (GetAdminMe, calm, with_cookie (JStr token0))] db2)
   \<and> never_unrevoked (sessions db2)
         (sessions (run test_crypto test_config [(PostAdminLogin, later, login_request)] db2))"
proof -
  have a: "distinct (map sessionTokenHash (sessions db1))"
    by (simp add: db1_def)
  have b: "post_admin_logout test_crypto test_config later (with_cookie (JStr token0)) db1
       = (\<lparr>status = 200, body = OkBody, cookie = ClearCookie ''admin_session'' ''/''\<rparr>, db2)"
    by (simp add: post_admin_logout_def guarded_def requireAdminSession_def logout_handler_def
        touch_lastSeenAt_def io_defs Let_def sessionTokenToHash_def later_def with_cookie_def
        test_crypto_def test_config_def db1_def db2_def db0_def session0_def no_faults_def
        token0_def)
  have c: "status \<lparr>status = 200, body = OkBody, cookie = ClearCookie ''admin_session'' ''/''\<rparr>
             = 200"
    by simp
  note T = logout_revokes_for_good [OF a b c]
  have d: "requireAdminSession test_crypto test_config calm (with_cookie (JStr token0))
         (run test_crypto test_config
            [(PostAdminLogin, later, login_request),
             (GetAdminMe, calm, with_cookie (JStr token0))] db2)
       = (Inl (json 401 (ErrorBody ''unauthorized'' ''Invalid or revoked session'')),
          run test_crypto test_config
            [(PostAdminLogin, later, login_request),
             (GetAdminMe, calm, with_cookie (JStr token0))] db2)"
    by (rule T [THEN conjunct1, THEN spec, THEN spec, THEN spec, THEN mp, THEN conjunct2,
          THEN mp])
      (simp_all add: calm_def no_faults_def)
  have e: "never_unrevoked (sessions db2)
         (sessions (run test_crypto test_config [(PostAdminLogin, later, login_request)] db2))"
    by (rule T [THEN conjunct2, THEN spec, THEN spec])
  show ?thesis using a b d e by (intro conjI)
qed



lemma login_frame:
  "accounts (snd (post_admin_login cr cfg w rq d)) = accounts d
   \<and> entities (snd (post_admin_login cr cfg w rq d)) = entities d
   \<and> pages (snd (post_admin_login cr cfg w rq d)) = pages d"
proof (cases "post_admin_login cr cfg w rq d")
  case (Pair r d')
  show ?thesis
  proof (cases "status r = 200")
    case True
    from login_200 [OF Pair True] Pair show ?thesis by auto
  next
    case False
    from login_not_200_same [OF Pair False] Pair show ?thesis by simp
  qed
qed

lemma stays_valid:
  assumes found: "find (\<lambda>s. sessionTokenHash s = hmac_sha256_hex cr (SESSION_PEPPER cfg) t
                     \<and> revokedAt s = None) (sessions d) = Some s"
    and quiet: "\<forall>(rt, w, rq)\<in>set evs.
                  \<not> revokes cr cfg rt rq (hmac_sha256_hex cr (SESSION_PEPPER cfg) t)"
    and cookie: "admin_session rq' = Some (JStr t)" "t \<noteq> []"
    and up: "fails w' ConnectToMongo = None" "fails w' SessionsFindOne = None"
  shows "fst (requireAdminSession cr cfg w' rq' (run cr cfg evs d))
           = Inr (Admin (accountId s) (sess_id s))"
proof -
  let ?h = "hmac_sha256_hex cr (SESSION_PEPPER cfg) t"
  let ?R = "\<lambda>h. \<exists>(rt, w, rq)\<in>set evs. revokes cr cfg rt rq h"
  have "\<not> ?R ?h" using quiet by auto
  from evolves_keeps_active [OF run_evolves this,
      where a = "Admin (accountId s) (sess_id s)" and d1 = d] found
  have "map_option (\<lambda>s. Admin (accountId s) (sess_id s))
          (find (\<lambda>s. sessionTokenHash s = ?h \<and> revokedAt s = None)
             (sessions (run cr cfg evs d))) = Some (Admin (accountId s) (sess_id s))"
    by (simp add: active_abs)
  then obtain s' where
    "find (\<lambda>s. sessionTokenHash s = ?h \<and> revokedAt s = None) (sessions (run cr cfg evs d)) = Some s'"
    "Admin (accountId s') (sess_id s') = Admin (accountId s) (sess_id s)"
    by auto
  with requireAdminSession_found [OF cookie up, of cr cfg "run cr cfg evs d"]
  show ?thesis by simp
qed

subsection \<open>Login\<close>

text \<open>
  C1, as the code has it. A login with a non-empty user name \<open>u\<close> and a truthy (so
  non-empty) password, where \<open>u\<close> is the name of a stored account that is not disabled
  and whose hash verifies the password, succeeds whenever the store answers and does not yet
  hold the digest of the new token: the response is 200 \<^verbatim>\<open>{ok: true}\<close> with the raw
  token in the cookie \<^verbatim>\<open>admin_session\<close>, the store gains one session \<open>s\<close> with
  \<^verbatim>\<open>revokedAt\<close> null, the account's id and the digest of the raw token, and
  \<^verbatim>\<open>requireAdminSession\<close> resolves a request that presents the raw token to that
  account. User names are unique (the index of \<^verbatim>\<open>ensureIndexes\<close>).
\<close>

theorem login_issues_working_session:
  assumes user: "map_of (body_doc rq) ''username'' = Some (JStr u)" "u \<noteq> []"
    and pw: "truthy (map_of (body_doc rq) ''password'')"
    and acct: "acct \<in> set (accounts d)" "username acct = u" "\<not> disabled acct"
    and uniq: "distinct (map username (accounts d))"
    and ver: "argon2_verify cr (passwordHash acct) (map_of (body_doc rq) ''password'') = Inr True"
    and up: "fails w ConnectToMongo = None" "fails w AccountsFindOne = None"
      "fails w SessionsInsertOne = None"
    and fresh: "hmac_sha256_hex cr (SESSION_PEPPER cfg) (makeSessionToken (entropy w))
                  \<notin> set (map sessionTokenHash (sessions d))"
  shows "post_admin_login cr cfg w rq d
            = (\<lparr>status = 200, body = OkBody,
                cookie = SetCookie ''admin_session'' (makeSessionToken (entropy w))
                           (adminCookieOptions cfg)\<rparr>,
               d\<lparr>sessions := sessions d @ [login_session cr cfg w rq acct d]\<rparr>)
         \<and> revokedAt (login_session cr cfg w rq acct d) = None
         \<and> accountId (login_session cr cfg w rq acct d) = acc_id acct
         \<and> sessionTokenToHash cr cfg (Some (JStr (makeSessionToken (entropy w))))
             = Inr (sessionTokenHash (login_session cr cfg w rq acct d))
         \<and> (\<forall>w' rq'. admin_session rq' = Some (JStr (makeSessionToken (entropy w)))
               \<and> fails w' ConnectToMongo = None \<and> fails w' SessionsFindOne = None \<longrightarrow>
               fst (requireAdminSession cr cfg w' rq' (snd (post_admin_login cr cfg w rq d)))
                 = Inr (Admin (acc_id acct) (sess_id (login_session cr cfg w rq acct d))))"
proof -
  let ?s = "login_session cr cfg w rq acct d"
  let ?t = "makeSessionToken (entropy w)"
  have tu: "truthy (map_of (body_doc rq) ''username'')" using user by simp
  have f: "find (\<lambda>a. map_of (body_doc rq) ''username'' = Some (JStr (username a))
                     \<and> \<not> disabled a) (accounts d) = Some acct"
    using find_account [OF uniq acct] by (simp add: user)
  have h: "sessionTokenHash ?s = hmac_sha256_hex cr (SESSION_PEPPER cfg) ?t"
    by (simp add: login_session_def)
  have 1: "post_admin_login cr cfg w rq d
            = (\<lparr>status = 200, body = OkBody,
                cookie = SetCookie ''admin_session'' ?t (adminCookieOptions cfg)\<rparr>,
               d\<lparr>sessions := sessions d @ [?s]\<rparr>)"
    using fresh by (simp add: login_unfold [OF tu pw up(1,2)] f ver up(3) h)
  have 2: "revokedAt ?s = None \<and> accountId ?s = acc_id acct
         \<and> sessionTokenToHash cr cfg (Some (JStr ?t)) = Inr (sessionTokenHash ?s)"
    by (simp add: login_session_def sessionTokenToHash_def)
  have 3: "fst (requireAdminSession cr cfg w' rq' (snd (post_admin_login cr cfg w rq d)))
                 = Inr (Admin (acc_id acct) (sess_id ?s))"
    if "admin_session rq' = Some (JStr ?t)" "fails w' ConnectToMongo = None"
      "fails w' SessionsFindOne = None" for w' rq'
    using requireAdminSession_found [OF that(1) makeSessionToken_nonempty that(2,3),
        of cr cfg "d\<lparr>sessions := sessions d @ [?s]\<rparr>"]
      find_fresh_append [OF fresh, of ?s]
    by (simp add: 1) (simp add: login_session_def)
  from 1 2 3 show ?thesis by blast
qed

lemma makeSessionToken_zero: "makeSessionToken (\<lambda>_. 0) = token0"
  by (simp add: makeSessionToken_def randomBytes_def token0_def upt_rec b64_def
      base64url_alphabet_def)

lemma makeSessionToken_ones: "makeSessionToken (\<lambda>_. 255) = token1"
  by (simp add: makeSessionToken_def randomBytes_def token1_def upt_rec b64_def
      base64url_alphabet_def)

lemma login_calm:
  "post_admin_login test_crypto test_config calm login_request db0
     = (\<lparr>status = 200, body = OkBody,
         cookie = SetCookie ''admin_session'' token0 (adminCookieOptions test_config)\<rparr>, db1)"
  by (simp add: post_admin_login_def makeSessionToken_zero io_defs Let_def
      sessionTokenToHash_def sessions_insertOne_def fresh_id_def
      test_crypto_def test_config_def calm_def login_request_def with_body_def body_doc_def
      db0_def db1_def session0_def admin_account_def no_faults_def or_null_def js_or_def)

lemma login_later:
  "post_admin_login test_crypto test_config later login_request db1
     = (\<lparr>status = 200, body = OkBody,
         cookie = SetCookie ''admin_session'' token1 (adminCookieOptions test_config)\<rparr>, db12)"
  by (simp add: post_admin_login_def makeSessionToken_ones io_defs Let_def
      sessionTokenToHash_def sessions_insertOne_def fresh_id_def
      test_crypto_def test_config_def later_def login_request_def with_body_def body_doc_def
      db0_def db1_def db12_def session0_def session1_def admin_account_def no_faults_def
      or_null_def js_or_def token0_def token1_def)

theorem login_issues_working_session_witness:
  "post_admin_login test_crypto test_config calm login_request db0
     = (\<lparr>status = 200, body = OkBody,
         cookie = SetCookie ''admin_session'' token0 (adminCookieOptions test_config)\<rparr>, db1)
   \<and> revokedAt (login_session test_crypto test_config calm login_request admin_account db0) = None
   \<and> fst (requireAdminSession test_crypto test_config later
             (with_cookie (JStr (makeSessionToken (entropy calm)))) db1)
       = Inr (Admin 7 1)"
proof -
  note T = login_issues_working_session [where u = "''admin''" and rq = login_request
      and d = db0 and acct = admin_account and cr = test_crypto and cfg = test_config
      and w = calm]
  have p: "map_of (body_doc login_request) ''username'' = Some (JStr ''admin'')"
    "''admin'' \<noteq> []"
    "truthy (map_of (body_doc login_request) ''password'')"
    "admin_account \<in> set (accounts db0)" "username admin_account = ''admin''"
    "\<not> disabled admin_account" "distinct (map username (accounts db0))"
    "argon2_verify test_crypto (passwordHash admin_account)
       (map_of (body_doc login_request) ''password'') = Inr True"
    "fails calm ConnectToMongo = None" "fails calm AccountsFindOne = None"
    "fails calm SessionsInsertOne = None"
    "hmac_sha256_hex test_crypto (SESSION_PEPPER test_config) (makeSessionToken (entropy calm))
       \<notin> set (map sessionTokenHash (sessions db0))"
    by (simp_all add: login_request_def with_body_def body_doc_def calm_def no_faults_def
        db0_def admin_account_def test_crypto_def)
  note U = T [OF p]
  have a: "revokedAt (login_session test_crypto test_config calm login_request admin_account db0)
             = None"
    by (rule U [THEN conjunct2, THEN conjunct1])
  have "fst (requireAdminSession test_crypto test_config later
             (with_cookie (JStr (makeSessionToken (entropy calm))))
             (snd (post_admin_login test_crypto test_config calm login_request db0)))
       = Inr (Admin (acc_id admin_account)
               (sess_id (login_session test_crypto test_config calm login_request
                           admin_account db0)))"
    by (rule U [THEN conjunct2, THEN conjunct2, THEN conjunct2, THEN conjunct2, THEN spec,
          THEN spec, THEN mp])
      (simp add: with_cookie_def later_def no_faults_def)
  then have b: "fst (requireAdminSession test_crypto test_config later
             (with_cookie (JStr (makeSessionToken (entropy calm)))) db1)
       = Inr (Admin 7 1)"
    unfolding login_calm snd_conv
    by (simp add: login_session_def admin_account_def fresh_id_def db0_def)
  show ?thesis using login_calm a b by (intro conjI)
qed

text \<open>
  C1, as the claim states it, fails for an empty password (and likewise an empty user
  name): the handler answers 400 before it looks the account up, although the pair
  matches a stored account that is not disabled and whose hash verifies the password.
\<close>

theorem login_rejects_empty_password:
  "blank_account \<in> set (accounts blank_db)
   \<and> username blank_account = ''admin''
   \<and> disabled blank_account = False
   \<and> argon2_verify test_crypto (passwordHash blank_account) (Some (JStr [])) = Inr True
   \<and> post_admin_login test_crypto test_config calm
        (with_body [(''username'', JStr ''admin''), (''password'', JStr [])]) blank_db
     = (json 400 (ErrorBody ''bad_request'' ''Missing username or password''), blank_db)"
  by (simp add: post_admin_login_def io_defs with_body_def body_doc_def blank_db_def
      blank_account_def test_crypto_def)

text \<open>
  C6. Two successful logins in a row, for the same account or not: each appends one session
  (\<open>s1\<close>, then \<open>s2\<close>) to the collection and changes nothing else in the store; the two raw tokens differ, and
  so do their digests; both sessions are active; when the two requests name the same user,
  both sessions belong to the same account. And each token stays valid: after any sequence
  of requests none of which is a logout that presents a token with that digest (logouts
  of the other token included), \<^verbatim>\<open>requireAdminSession\<close> resolves the token to its
  session and account whenever the connection and the lookup succeed.
\<close>

theorem logins_coexist:
  assumes l1: "post_admin_login cr cfg w1 rq1 d = (r1, d1)" "status r1 = 200"
    and l2: "post_admin_login cr cfg w2 rq2 d1 = (r2, d2)" "status r2 = 200"
  shows "(let s1 = last (sessions d1); s2 = last (sessions d2) in
      sessions d1 = sessions d @ [s1] \<and> sessions d2 = sessions d @ [s1, s2]
    \<and> accounts d2 = accounts d \<and> entities d2 = entities d \<and> pages d2 = pages d
    \<and> cookie r1 = SetCookie ''admin_session'' (makeSessionToken (entropy w1))
                     (adminCookieOptions cfg)
    \<and> cookie r2 = SetCookie ''admin_session'' (makeSessionToken (entropy w2))
                     (adminCookieOptions cfg)
    \<and> makeSessionToken (entropy w1) \<noteq> makeSessionToken (entropy w2)
    \<and> sessionTokenHash s1 = hmac_sha256_hex cr (SESSION_PEPPER cfg) (makeSessionToken (entropy w1))
    \<and> sessionTokenHash s2 = hmac_sha256_hex cr (SESSION_PEPPER cfg) (makeSessionToken (entropy w2))
    \<and> sessionTokenHash s1 \<noteq> sessionTokenHash s2
    \<and> revokedAt s1 = None \<and> revokedAt s2 = None
    \<and> (map_of (body_doc rq1) ''username'' = map_of (body_doc rq2) ''username'' \<longrightarrow>
          accountId s1 = accountId s2)
    \<and> (\<forall>evs w rq.
          (\<forall>(rt, w', rq')\<in>set evs. \<not> revokes cr cfg rt rq' (sessionTokenHash s1))
          \<and> admin_session rq = Some (JStr (makeSessionToken (entropy w1)))
          \<and> fails w ConnectToMongo = None \<and> fails w SessionsFindOne = None \<longrightarrow>
          fst (requireAdminSession cr cfg w rq (run cr cfg evs d2))
            = Inr (Admin (accountId s1) (sess_id s1)))
    \<and> (\<forall>evs w rq.
          (\<forall>(rt, w', rq')\<in>set evs. \<not> revokes cr cfg rt rq' (sessionTokenHash s2))
          \<and> admin_session rq = Some (JStr (makeSessionToken (entropy w2)))
          \<and> fails w ConnectToMongo = None \<and> fails w SessionsFindOne = None \<longrightarrow>
          fst (requireAdminSession cr cfg w rq (run cr cfg evs d2))
            = Inr (Admin (accountId s2) (sess_id s2))))"
proof -
  let ?t1 = "makeSessionToken (entropy w1)" and ?t2 = "makeSessionToken (entropy w2)"
  let ?h1 = "hmac_sha256_hex cr (SESSION_PEPPER cfg) ?t1"
  let ?h2 = "hmac_sha256_hex cr (SESSION_PEPPER cfg) ?t2"
  let ?user = "\<lambda>rq a. map_of (body_doc rq) ''username'' = Some (JStr (username a))
                     \<and> disabled a = False"
  from login_200 [OF l1] obtain a1 where
    a1: "find (?user rq1) (accounts d) = Some a1"
    and f1: "sessionTokenHash (login_session cr cfg w1 rq1 a1 d)
               \<notin> set (map sessionTokenHash (sessions d))"
    and r1: "r1 = \<lparr>status = 200, body = OkBody,
              cookie = SetCookie ''admin_session'' ?t1 (adminCookieOptions cfg)\<rparr>"
    and d1: "d1 = d\<lparr>sessions := sessions d @ [login_session cr cfg w1 rq1 a1 d]\<rparr>"
    by blast
  from login_200 [OF l2] obtain a2 where
    a2: "find (?user rq2) (accounts d1) = Some a2"
    and f2: "sessionTokenHash (login_session cr cfg w2 rq2 a2 d1)
               \<notin> set (map sessionTokenHash (sessions d1))"
    and r2: "r2 = \<lparr>status = 200, body = OkBody,
              cookie = SetCookie ''admin_session'' ?t2 (adminCookieOptions cfg)\<rparr>"
    and d2: "d2 = d1\<lparr>sessions := sessions d1 @ [login_session cr cfg w2 rq2 a2 d1]\<rparr>"
    by blast
  define s1 where "s1 = login_session cr cfg w1 rq1 a1 d"
  define s2 where "s2 = login_session cr cfg w2 rq2 a2 d1"
  have h1: "sessionTokenHash s1 = ?h1" and h2: "sessionTokenHash s2 = ?h2"
    and rv: "revokedAt s1 = None" "revokedAt s2 = None"
    and ac: "accountId s1 = acc_id a1" "accountId s2 = acc_id a2"
    by (simp_all add: s1_def s2_def login_session_def)
  have fresh1: "?h1 \<notin> set (map sessionTokenHash (sessions d))"
    using f1 by (simp add: login_session_def)
  have fresh2: "?h2 \<notin> set (map sessionTokenHash (sessions d @ [s1]))"
    using f2 by (simp add: login_session_def d1 s1_def)
  have ne: "?h1 \<noteq> ?h2" using fresh2 h1 by auto
  then have tne: "?t1 \<noteq> ?t2" by auto
  have ss1: "sessions d1 = sessions d @ [s1]" by (simp add: d1 s1_def)
  have ss2: "sessions d2 = sessions d @ [s1, s2]" by (simp add: d2 d1 s1_def s2_def)
  have l: "last (sessions d1) = s1" "last (sessions d2) = s2" by (simp_all add: ss1 ss2)
  have fr: "accounts d2 = accounts d \<and> entities d2 = entities d \<and> pages d2 = pages d"
    by (simp add: d2 d1)
  have same: "accountId s1 = accountId s2"
    if "map_of (body_doc rq1) ''username'' = map_of (body_doc rq2) ''username''"
    using a1 a2 that by (simp add: d1 ac)
  have find1: "find (\<lambda>s. sessionTokenHash s = ?h1 \<and> revokedAt s = None) (sessions d2) = Some s1"
  proof -
    have A: "find (\<lambda>s. sessionTokenHash s = ?h1 \<and> revokedAt s = None) (sessions d @ [s1]) = Some s1"
      using find_fresh_append [OF fresh1, of s1] h1 rv by simp
    have B: "sessions d2 = (sessions d @ [s1]) @ [s2]" by (simp add: ss2)
    show ?thesis
      unfolding B find_append [of _ "sessions d @ [s1]" "[s2]"] A by simp
  qed
  have find2: "find (\<lambda>s. sessionTokenHash s = ?h2 \<and> revokedAt s = None) (sessions d2) = Some s2"
    using find_fresh_append [OF fresh2, of s2] h2 rv by (simp add: ss2)
  have v1: "fst (requireAdminSession cr cfg w rq (run cr cfg evs d2))
            = Inr (Admin (accountId s1) (sess_id s1))"
    if "\<forall>(rt, w', rq')\<in>set evs. \<not> revokes cr cfg rt rq' (sessionTokenHash s1)"
      "admin_session rq = Some (JStr ?t1)" "fails w ConnectToMongo = None"
      "fails w SessionsFindOne = None" for evs w rq
    by (rule stays_valid [OF find1 _ that(2) makeSessionToken_nonempty that(3,4)])
      (use that(1) in \<open>simp add: h1\<close>)
  have v2: "fst (requireAdminSession cr cfg w rq (run cr cfg evs d2))
            = Inr (Admin (accountId s2) (sess_id s2))"
    if "\<forall>(rt, w', rq')\<in>set evs. \<not> revokes cr cfg rt rq' (sessionTokenHash s2)"
      "admin_session rq = Some (JStr ?t2)" "fails w ConnectToMongo = None"
      "fails w SessionsFindOne = None" for evs w rq
    by (rule stays_valid [OF find2 _ that(2) makeSessionToken_nonempty that(3,4)])
      (use that(1) in \<open>simp add: h2\<close>)
  show ?thesis
    unfolding Let_def l
    using ss1 ss2 fr tne h1 h2 ne rv same v1 v2
    by (simp add: r1 r2)
qed

theorem logins_coexist_witness:
  "post_admin_login test_crypto test_config calm login_request db0
     = (\<lparr>status = 200, body = OkBody,
         cookie = SetCookie ''admin_session'' token0 (adminCookieOptions test_config)\<rparr>, db1)
   \<and> post_admin_login test_crypto test_config later login_request db1
     = (\<lparr>status = 200, body = OkBody,
         cookie = SetCookie ''admin_session'' token1 (adminCookieOptions test_config)\<rparr>, db12)
   \<and> sessions db12 = sessions db0 @ [session0, session1]
   \<and> makeSessionToken (entropy calm) \<noteq> makeSessionToken (entropy later)
   \<and> fst (requireAdminSession test_crypto test_config calm (with_cookie (JStr token0))
            (run test_crypto test_config
               [(PostAdminLogout, later, with_cookie (JStr token1))] db12))
       = Inr (Admin 7 1)"
proof -
  have s: "status \<lparr>status = 200, body = OkBody,
         cookie = SetCookie ''admin_session'' t (adminCookieOptions test_config)\<rparr> = 200" for t
    by simp
  note T = logins_coexist [OF login_calm s login_later s, unfolded Let_def]
  have l: "last (sessions db1) = session0" "last (sessions db12) = session1"
    by (simp_all add: db1_def db12_def)
  have a: "sessions db12 = sessions db0 @ [session0, session1]"
    using T [THEN conjunct2, THEN conjunct1] by (simp only: l)
  have b: "makeSessionToken (entropy calm) \<noteq> makeSessionToken (entropy later)"
    by (rule T [THEN conjunct2, THEN conjunct2, THEN conjunct2, THEN conjunct2,
          THEN conjunct2, THEN conjunct2, THEN conjunct2, THEN conjunct1])
  have "fst (requireAdminSession test_crypto test_config calm (with_cookie (JStr token0))
            (run test_crypto test_config
               [(PostAdminLogout, later, with_cookie (JStr token1))] db12))
       = Inr (Admin (accountId (last (sessions db1))) (sess_id (last (sessions db1))))"
    by (rule T [THEN conjunct2, THEN conjunct2, THEN conjunct2, THEN conjunct2,
          THEN conjunct2, THEN conjunct2, THEN conjunct2, THEN conjunct2, THEN conjunct2,
          THEN conjunct2, THEN conjunct2, THEN conjunct2, THEN conjunct2, THEN conjunct2,
          THEN conjunct1, THEN spec, THEN spec, THEN spec, THEN mp])
      (simp add: l revokes_def sessionTokenToHash_def with_cookie_def calm_def no_faults_def
        makeSessionToken_zero session0_def token0_def token1_def test_crypto_def
        test_config_def)
  then have c: "fst (requireAdminSession test_crypto test_config calm (with_cookie (JStr token0))
            (run test_crypto test_config
               [(PostAdminLogout, later, with_cookie (JStr token1))] db12))
       = Inr (Admin 7 1)"
    by (simp add: l session0_def)
  show ?thesis using login_calm login_later a b c by (intro conjI)
qed

subsection \<open>Entity identifiers\<close>

lemma post_payload_ids:
  "map_of (post_payload w rq l k) ''list'' = Some (JStr l)
   \<and> map_of (post_payload w rq l k) ''key'' = Some (JStr k)
   \<and> map_of (post_payload w rq l k) ''_id'' = map_of (body_doc rq) ''_id''"
  by (simp add: post_payload_def Let_def update_conv')

lemma put_patch_ids:
  "map_of (put_patch w rq) ''_id'' = None \<and> map_of (put_patch w rq) ''list'' = None
   \<and> map_of (put_patch w rq) ''key'' = None"
  by (simp add: put_patch_def update_conv' delete_conv')

lemma merge_put_patch:
  "map_of (AList.merge e (put_patch w rq)) ''_id'' = map_of e ''_id''
   \<and> map_of (AList.merge e (put_patch w rq)) ''list'' = map_of e ''list''
   \<and> map_of (AList.merge e (put_patch w rq)) ''key'' = map_of e ''key''"
  using put_patch_ids [of w rq] by (simp add: merge_conv' map_add_def)

lemma same_entity_merge:
  "same_entity l k (AList.merge e (put_patch w rq)) = same_entity l k e"
  by (simp add: same_entity_def merge_put_patch)

lemma post_handler_201:
  assumes "post_entities_handler w rq l k d = (r, d')"
  shows "(status r = 201 \<longrightarrow>
            entities d' = entities d @ [last (entities d')]
            \<and> map_of (last (entities d')) ''list'' = Some (JStr l)
            \<and> map_of (last (entities d')) ''key'' = Some (JStr k)
            \<and> body r = DocBody (stripMongoId (last (entities d'))))
         \<and> (status r \<noteq> 201 \<longrightarrow> d' = d)"
  using assms post_payload_ids [of w rq l k]
  by (auto simp: post_entities_handler_def entities_insertOne_def io_defs Let_def update_conv'
      split: option.splits sum.splits if_splits)

lemma put_handler_entities:
  assumes "put_entities_handler w rq l k d = (r, d')"
  shows "entities d' = entities d
         \<or> entities d' = updateOne (same_entity l k) (\<lambda>e. AList.merge e (put_patch w rq))
                            (entities d)"
  using assms
  by (auto simp: put_entities_handler_def entities_findOneAndUpdate_def io_defs
      split: option.splits sum.splits if_splits)

lemma put_handler_200:
  assumes "put_entities_handler w rq l k d = (r, d')" "status r = 200"
  shows "\<exists>e. find (same_entity l k) (entities d) = Some e
           \<and> body r = DocBody (stripMongoId (AList.merge e (put_patch w rq)))
           \<and> entities d' = updateOne (same_entity l k) (\<lambda>e. AList.merge e (put_patch w rq))
                              (entities d)"
  using assms
  by (auto simp: put_entities_handler_def entities_findOneAndUpdate_def io_defs
      split: option.splits sum.splits if_splits)

lemma find_updateOne_index:
  "find P xs = Some e \<Longrightarrow> \<exists>i<length xs. xs ! i = e \<and> updateOne P g xs ! i = g e"
proof (induction xs)
  case Nil
  then show ?case by simp
next
  case (Cons x xs)
  show ?case
  proof (cases "P x")
    case True
    with Cons.prems show ?thesis by auto
  next
    case False
    with Cons obtain i where "i < length xs" "xs ! i = e" "updateOne P g xs ! i = g e"
      by auto
    with False show ?thesis by (intro exI [of _ "Suc i"]) simp
  qed
qed

lemma guarded_cases:
  assumes "guarded cr cfg w rq d H = (r, d')"
  shows "(d' = d \<and> (status r = 401 \<or> status r = 500))
         \<or> (\<exists>d0. entities d0 = entities d \<and> H d0 = (r, d'))"
proof (cases "requireAdminSession cr cfg w rq d")
  case (Pair out d0)
  show ?thesis
  proof (cases out)
    case (Inl resp)
    with Pair assms requireAdminSession_Inl_same [of cr cfg w rq d resp d0]
      requireAdminSession_Inl_status [of cr cfg w rq d resp d0]
    show ?thesis by (auto simp: guarded_def)
  next
    case (Inr a)
    with Pair assms requireAdminSession_frame [of cr cfg w rq d]
    show ?thesis by (auto simp: guarded_def)
  qed
qed

lemma post_entities_ids:
  assumes "post_entities cr cfg w rq l k d = (r, d')"
  shows "(status r = 201 \<longrightarrow>
            entities d' = entities d @ [last (entities d')]
            \<and> map_of (last (entities d')) ''list'' = Some (JStr l)
            \<and> map_of (last (entities d')) ''key'' = Some (JStr k)
            \<and> body r = DocBody (stripMongoId (last (entities d'))))
         \<and> (status r \<noteq> 201 \<longrightarrow> entities d' = entities d)"
proof -
  from guarded_cases [OF assms [unfolded post_entities_def]]
  consider (deny) "d' = d" "status r = 401 \<or> status r = 500"
    | (pass) d0 where "entities d0 = entities d" "post_entities_handler w rq l k d0 = (r, d')"
    by blast
  then show ?thesis
  proof cases
    case deny
    then show ?thesis by auto
  next
    case pass
    from post_handler_201 [OF pass(2)] show ?thesis by (auto simp: pass(1))
  qed
qed

lemma put_entities_ids:
  assumes "put_entities cr cfg w rq l k d = (r, d')"
  shows "length (entities d') = length (entities d)
     \<and> (\<forall>i<length (entities d).
           map_of (entities d' ! i) ''_id'' = map_of (entities d ! i) ''_id''
           \<and> map_of (entities d' ! i) ''list'' = map_of (entities d ! i) ''list''
           \<and> map_of (entities d' ! i) ''key'' = map_of (entities d ! i) ''key'')
     \<and> (status r = 200 \<longrightarrow>
           (\<exists>i<length (entities d). same_entity l k (entities d' ! i)
               \<and> body r = DocBody (stripMongoId (entities d' ! i))))"
proof -
  from guarded_cases [OF assms [unfolded put_entities_def]]
  consider (deny) "d' = d" "status r = 401 \<or> status r = 500"
    | (pass) d0 where "entities d0 = entities d" "put_entities_handler w rq l k d0 = (r, d')"
    by blast
  then show ?thesis
  proof cases
    case deny
    then show ?thesis by auto
  next
    case pass
    note e = pass(1) and h = pass(2)
  let ?g = "\<lambda>e. AList.merge e (put_patch w rq)"
  have keep: "map_of (updateOne (same_entity l k) ?g (entities d) ! i) f
                = map_of (entities d ! i) f"
    if "i < length (entities d)" "f = ''_id'' \<or> f = ''list'' \<or> f = ''key''" for i f
    using updateOne_nth [OF that(1), of "same_entity l k" ?g] that(2)
      merge_put_patch [of "entities d ! i" w rq]
    by auto
  from put_handler_entities [OF h]
  have 1: "length (entities d') = length (entities d)
     \<and> (\<forall>i<length (entities d).
           map_of (entities d' ! i) ''_id'' = map_of (entities d ! i) ''_id''
           \<and> map_of (entities d' ! i) ''list'' = map_of (entities d ! i) ''list''
           \<and> map_of (entities d' ! i) ''key'' = map_of (entities d ! i) ''key'')"
    by (auto simp: e length_updateOne keep)
  have 2: "\<exists>i<length (entities d). same_entity l k (entities d' ! i)
               \<and> body r = DocBody (stripMongoId (entities d' ! i))"
    if "status r = 200"
  proof -
    from put_handler_200 [OF h that] obtain x where
      x: "find (same_entity l k) (entities d) = Some x"
        "body r = DocBody (stripMongoId (?g x))"
        "entities d' = updateOne (same_entity l k) ?g (entities d)"
      by (auto simp: e)
    from find_updateOne_index [OF x(1), of ?g] obtain i where
      i: "i < length (entities d)" "updateOne (same_entity l k) ?g (entities d) ! i = ?g x"
      by blast
    from find_SomeD [OF x(1)] have "same_entity l k (?g x)" by (simp add: same_entity_merge)
    with i x show ?thesis by auto
  qed
  from 1 2 show ?thesis by blast
  qed
qed

text \<open>
  C9. Whatever the body holds: when \<^verbatim>\<open>POST /entities/:list/:key\<close> answers 201 it has
  appended exactly one document, whose \<^verbatim>\<open>list\<close> and \<^verbatim>\<open>key\<close> are the strings of
  the path, and it answers with that document; otherwise it leaves the collection as it
  was. \<^verbatim>\<open>PUT /entities/:list/:key\<close> changes the \<^verbatim>\<open>_id\<close>, \<^verbatim>\<open>list\<close> and
  \<^verbatim>\<open>key\<close> of no stored document, and when it answers 200 the document it returns is
  a stored one that the path selects (its \<^verbatim>\<open>list\<close> and \<^verbatim>\<open>key\<close> are the strings of
  the path, or arrays that hold them).
\<close>

theorem entity_identifiers_follow_path:
  "(post_entities cr cfg w rq l k d = (r, d') \<longrightarrow>
      (status r = 201 \<longrightarrow>
         entities d' = entities d @ [last (entities d')]
         \<and> map_of (last (entities d')) ''list'' = Some (JStr l)
         \<and> map_of (last (entities d')) ''key'' = Some (JStr k)
         \<and> body r = DocBody (stripMongoId (last (entities d'))))
      \<and> (status r \<noteq> 201 \<longrightarrow> entities d' = entities d))
   \<and> (put_entities cr cfg w rq l k d = (r, d') \<longrightarrow>
        length (entities d') = length (entities d)
        \<and> (\<forall>i<length (entities d).
              map_of (entities d' ! i) ''_id'' = map_of (entities d ! i) ''_id''
              \<and> map_of (entities d' ! i) ''list'' = map_of (entities d ! i) ''list''
              \<and> map_of (entities d' ! i) ''key'' = map_of (entities d ! i) ''key'')
        \<and> (status r = 200 \<longrightarrow>
              (\<exists>i<length (entities d). same_entity l k (entities d' ! i)
                  \<and> body r = DocBody (stripMongoId (entities d' ! i)))))"
  by (rule conjI; rule impI; (erule post_entities_ids | erule put_entities_ids))

lemmas entity_eval_defs =
  post_entities_def put_entities_def guarded_def requireAdminSession_def
  post_entities_handler_def put_entities_handler_def entities_insertOne_def
  entities_findOneAndUpdate_def post_payload_def put_patch_def touch_lastSeenAt_def
  fresh_oid_def same_entity_def io_defs Let_def later_def entity_request_def
  sessionTokenToHash_def test_crypto_def test_config_def body_doc_def db0_def db1_def
  session0_def admin_account_def no_faults_def entity_a_def entity_b_def page_x_def
  stripMongoId_def token0_def

theorem entity_identifiers_follow_path_witness:
  "status (fst (post_entities test_crypto test_config later entity_request ''x'' ''c'' db1)) = 201
   \<and> map_of (body_doc entity_request) ''list'' = Some (JStr ''zzz'')
   \<and> map_of (last (entities (snd (post_entities test_crypto test_config later entity_request
                                      ''x'' ''c'' db1)))) ''list'' = Some (JStr ''x'')
   \<and> map_of (last (entities (snd (post_entities test_crypto test_config later entity_request
                                      ''x'' ''c'' db1)))) ''key'' = Some (JStr ''c'')
   \<and> status (fst (put_entities test_crypto test_config later entity_request ''x'' ''a'' db1)) = 200
   \<and> map_of (entities (snd (put_entities test_crypto test_config later entity_request
                                ''x'' ''a'' db1)) ! 1) ''list'' = Some (JStr ''x'')
   \<and> map_of (entities (snd (put_entities test_crypto test_config later entity_request
                                ''x'' ''a'' db1)) ! 1) ''key'' = Some (JStr ''a'')"
proof -
  let ?X = "post_entities test_crypto test_config later entity_request ''x'' ''c'' db1"
  let ?Y = "put_entities test_crypto test_config later entity_request ''x'' ''a'' db1"
  have sx: "status (fst ?X) = 201" by (simp add: entity_eval_defs)
  have sy: "status (fst ?Y) = 200" by (simp add: entity_eval_defs)
  have b: "map_of (body_doc entity_request) ''list'' = Some (JStr ''zzz'')"
    by (simp add: entity_request_def body_doc_def)
  note P = entity_identifiers_follow_path [of test_crypto test_config later entity_request
      "''x''" "''c''" db1 "fst ?X" "snd ?X", THEN conjunct1, THEN mp, THEN conjunct1, THEN mp,
      OF _ sx]
  note Q = entity_identifiers_follow_path [of test_crypto test_config later entity_request
      "''x''" "''a''" db1 "fst ?Y" "snd ?Y", THEN conjunct2, THEN mp, THEN conjunct2,
      THEN conjunct1, THEN spec, THEN mp]
  have px: "map_of (last (entities (snd ?X))) ''list'' = Some (JStr ''x'')
      \<and> map_of (last (entities (snd ?X))) ''key'' = Some (JStr ''c'')"
    using P by simp
  have qy: "map_of (entities (snd ?Y) ! 1) ''list'' = map_of (entities db1 ! 1) ''list''
      \<and> map_of (entities (snd ?Y) ! 1) ''key'' = map_of (entities db1 ! 1) ''key''"
    using Q [of 1] by (simp add: db1_def db0_def)
  have e: "map_of (entities db1 ! 1) ''list'' = Some (JStr ''x'')"
    "map_of (entities db1 ! 1) ''key'' = Some (JStr ''a'')"
    by (simp_all add: db1_def db0_def entity_a_def)
  show ?thesis using sx sy b px qy e by simp
qed

lemma post_handler_keeps_id:
  assumes "post_entities_handler w rq l k d = (r, d')" "status r = 201"
    "map_of (body_doc rq) ''_id'' = Some v" "v \<noteq> JNull"
  shows "map_of (last (entities d')) ''_id'' = Some v"
  using assms post_payload_ids [of w rq l k]
  by (auto simp: post_entities_handler_def entities_insertOne_def io_defs Let_def
      split: option.splits sum.splits if_splits)

text \<open>
  \<^verbatim>\<open>POST /entities/:list/:key\<close> does not touch an \<^verbatim>\<open>_id\<close> the body supplies: the
  document is stored under it.
\<close>

theorem post_entities_keeps_body_id:
  "post_entities cr cfg w rq l k d = (r, d') \<and> status r = 201
   \<and> map_of (body_doc rq) ''_id'' = Some v \<and> v \<noteq> JNull \<longrightarrow>
   map_of (last (entities d')) ''_id'' = Some v"
proof (intro impI, elim conjE)
  assume a: "post_entities cr cfg w rq l k d = (r, d')" and s: "status r = 201"
    and v: "map_of (body_doc rq) ''_id'' = Some v" "v \<noteq> JNull"
  from guarded_cases [OF a [unfolded post_entities_def]] s
  obtain d0 where "post_entities_handler w rq l k d0 = (r, d')" by auto
  from post_handler_keeps_id [OF this s v]
  show "map_of (last (entities d')) ''_id'' = Some v" .
qed

theorem post_entities_keeps_body_id_witness:
  "status (fst (post_entities test_crypto test_config later own_id_request ''x'' ''c'' db1)) = 201
   \<and> map_of (last (entities (snd (post_entities test_crypto test_config later own_id_request
                                      ''x'' ''c'' db1)))) ''_id'' = Some (JStr ''mine'')"
proof -
  let ?X = "post_entities test_crypto test_config later own_id_request ''x'' ''c'' db1"
  have sx: "status (fst ?X) = 201" by (simp add: entity_eval_defs own_id_request_def)
  have b: "map_of (body_doc own_id_request) ''_id'' = Some (JStr ''mine'')"
    by (simp add: own_id_request_def body_doc_def)
  from post_entities_keeps_body_id [of test_crypto test_config later own_id_request
      "''x''" "''c''" db1 "fst ?X" "snd ?X" "JStr ''mine''"] sx b
  show ?thesis by simp
qed

subsection \<open>The token digest\<close>






subsection \<open>A password check that throws\<close>

text \<open>
  X3. When the account is found and \<^verbatim>\<open>argon2.verify\<close> throws (part\_000 line 225: a
  stored hash it cannot read, a password it cannot turn into bytes), the \<^verbatim>\<open>catch\<close> of
  lines 247--250 answers 500 \<^verbatim>\<open>internal_error\<close> with the error's message and the store
  is unchanged. The same request for a name without account is answered 401.
\<close>

theorem login_verify_error_is_visible:
  "truthy (map_of (body_doc rq) ''username'') \<and> truthy (map_of (body_doc rq) ''password'')
   \<and> fails w ConnectToMongo = None \<and> fails w AccountsFindOne = None
   \<and> find (\<lambda>a. map_of (body_doc rq) ''username'' = Some (JStr (username a))
                 \<and> disabled a = False) (accounts d) = Some acct
   \<and> argon2_verify cr (passwordHash acct) (map_of (body_doc rq) ''password'') = Inl e \<longrightarrow>
   post_admin_login cr cfg w rq d
     = (json 500 (ErrorBody ''internal_error'' (cleanError e)), d)"
proof (intro impI, elim conjE)
  assume a: "truthy (map_of (body_doc rq) ''username'')"
    "truthy (map_of (body_doc rq) ''password'')"
    "fails w ConnectToMongo = None" "fails w AccountsFindOne = None"
    and f: "find (\<lambda>a. map_of (body_doc rq) ''username'' = Some (JStr (username a))
                 \<and> disabled a = False) (accounts d) = Some acct"
    and v: "argon2_verify cr (passwordHash acct) (map_of (body_doc rq) ''password'') = Inl e"
  from f v show "post_admin_login cr cfg w rq d
     = (json 500 (ErrorBody ''internal_error'' (cleanError e)), d)"
    by (simp add: login_unfold [OF a])
qed

theorem login_verify_error_is_visible_witness:
  "post_admin_login strict_crypto test_config calm
      (with_body [(''username'', JStr ''admin''), (''password'', JNum 5)]) db0
     = (json 500 (ErrorBody ''internal_error'' ''ERR_INVALID_ARG_TYPE''), db0)
   \<and> post_admin_login strict_crypto test_config calm
      (with_body [(''username'', JStr ''nobody''), (''password'', JNum 5)]) db0
     = (json 401 (ErrorBody ''unauthorized'' ''Invalid credentials''), db0)"
proof -
  have a: "post_admin_login strict_crypto test_config calm
      (with_body [(''username'', JStr ''admin''), (''password'', JNum 5)]) db0
     = (json 500 (ErrorBody ''internal_error''
          (cleanError (JsError ''TypeError'' ''ERR_INVALID_ARG_TYPE'' None))), db0)"
    by (rule login_verify_error_is_visible [where acct = admin_account, THEN mp])
      (simp add: with_body_def body_doc_def calm_def no_faults_def db0_def admin_account_def
        strict_crypto_def test_crypto_def)
  have b: "post_admin_login strict_crypto test_config calm
      (with_body [(''username'', JStr ''nobody''), (''password'', JNum 5)]) db0
     = (json 401 (ErrorBody ''unauthorized'' ''Invalid credentials''), db0)"
    by (simp add: login_unfold with_body_def body_doc_def calm_def no_faults_def db0_def
        admin_account_def)
  show ?thesis using a b by (simp add: cleanError_def)
qed

subsection \<open>The indexes over time\<close>

lemma logout_handler_frame:
  "accounts (snd (logout_handler cr cfg w rq d)) = accounts d"
  by (simp add: logout_handler_def io_defs split: option.splits sum.splits)

lemma post_entities_handler_accounts:
  "accounts (snd (post_entities_handler w rq l k d)) = accounts d"
  by (simp add: post_entities_handler_def entities_insertOne_def io_defs Let_def
      split: option.splits sum.splits prod.splits)

lemma put_entities_handler_accounts:
  "accounts (snd (put_entities_handler w rq l k d)) = accounts d"
  by (simp add: put_entities_handler_def entities_findOneAndUpdate_def io_defs
      split: option.splits sum.splits prod.splits)

lemma guarded_accounts:
  assumes "\<And>d'. accounts (snd (H d')) = accounts d'"
  shows "accounts (snd (guarded cr cfg w rq d H)) = accounts d"
  using requireAdminSession_frame [of cr cfg w rq d] assms
  by (cases "requireAdminSession cr cfg w rq d") (auto simp: guarded_def split: sum.splits)

lemma handle_accounts: "accounts (snd (handle cr cfg rt w rq d)) = accounts d"
  by (cases rt)
    (simp_all add: handle_def login_frame post_admin_logout_def post_entities_def
      put_entities_def guarded_accounts logout_handler_frame post_entities_handler_accounts
      put_entities_handler_accounts)

lemma run_accounts: "accounts (run cr cfg evs d) = accounts d"
  by (induction evs arbitrary: d) (auto simp: handle_accounts)

text \<open>
  X4. No request changes the account collection, and the session digests, once pairwise
  distinct, stay so after any sequence of requests: the unique indexes of
  \<^verbatim>\<open>ensureIndexes\<close> (part\_000 lines 76--82) are invariants of the server.
\<close>

theorem indexes_stay_unique:
  "(distinct (map sessionTokenHash (sessions d)) \<longrightarrow>
      distinct (map sessionTokenHash (sessions (run cr cfg evs d))))
   \<and> accounts (run cr cfg evs d) = accounts d"
  using evolves_distinct [OF run_evolves, of d cr cfg evs] by (simp add: run_accounts)

theorem indexes_stay_unique_witness:
  "distinct (map sessionTokenHash (sessions db1))
   \<and> distinct (map sessionTokenHash
        (sessions (run test_crypto test_config [(PostAdminLogin, later, login_request)] db1)))
   \<and> accounts (run test_crypto test_config [(PostAdminLogin, later, login_request)] db1)
       = [admin_account]"
proof -
  have a: "distinct (map sessionTokenHash (sessions db1))" by (simp add: db1_def)
  from indexes_stay_unique [of db1 test_crypto test_config
      "[(PostAdminLogin, later, login_request)]"] a
  show ?thesis by (simp add: db1_def db0_def)
qed

end
